theory Spec2Isabelle
  imports Complex_Main
begin

section \<open>Strings\<close>

text \<open>
  A Python \<open>str\<close> is modelled as a \<open>string\<close>, a list of characters; the functions
  below are the string methods \<open>app.py\<close> calls. Case folding is modelled on the ASCII
  letters, and a character outside ASCII is left as it is. The Persian texts, which the
  program only passes on, are given by their UTF-8 bytes.
\<close>

definition lower_char :: "char \<Rightarrow> char" where
  "lower_char c =
     (let n = (of_char c :: nat) in if 65 \<le> n \<and> n \<le> 90 then char_of (n + 32) else c)"

definition py_lower :: "string \<Rightarrow> string" where
  "py_lower s = map lower_char s"

definition startswith :: "string \<Rightarrow> string \<Rightarrow> bool" where
  "startswith s p = (take (length p) s = p)"

text \<open>The operator \<open>kw in text\<close> on strings: \<open>kw\<close> occurs in \<open>text\<close> as a contiguous run.\<close>

fun py_in :: "string \<Rightarrow> string \<Rightarrow> bool" where
  "py_in kw [] = (kw = [])"
| "py_in kw (c # cs) = (startswith (c # cs) kw \<or> py_in kw cs)"

section \<open>Error classification\<close>

text \<open>
  \<open>app.py\<close> writes the same test at lines 127, 138, 185 and 205:
  \<^verbatim>\<open>any(kw in error_msg_lower for kw in ["cuda", "gpu", "quota", "capacity", "load",
      "queue full", "too many requests", "rate limit"])\<close>
  on the lower-cased error text.
\<close>

definition RESOURCE_KEYWORDS :: "string list" where
  "RESOURCE_KEYWORDS =
     [''cuda'', ''gpu'', ''quota'', ''capacity'', ''load'', ''queue full'',
      ''too many requests'', ''rate limit'']"

definition is_resource_error :: "string \<Rightarrow> bool" where
  "is_resource_error error_msg =
     (let error_msg_lower = py_lower error_msg
      in list_ex (\<lambda>kw. py_in kw error_msg_lower) RESOURCE_KEYWORDS)"

section \<open>The aspect-ratio table\<close>

record dimensions =
  width :: int
  height :: int

definition PREDEFINED_DIMENSIONS_MAP :: "(string \<times> dimensions) list" where
  "PREDEFINED_DIMENSIONS_MAP =
     [(''1:1'', \<lparr>width = 1024, height = 1024\<rparr>),
      (''16:9'', \<lparr>width = 1344, height = 768\<rparr>),
      (''9:16'', \<lparr>width = 768, height = 1344\<rparr>),
      (''4:3'', \<lparr>width = 1152, height = 864\<rparr>)]"

text \<open>
  Line 267: \<^verbatim>\<open>PREDEFINED_DIMENSIONS_MAP.get(aspect_ratio_key, PREDEFINED_DIMENSIONS_MAP["1:1"])\<close>.
  The default is itself a lookup in the table; the key \<open>1:1\<close> is present, so it cannot raise.
\<close>

definition lookup_dimensions :: "string \<Rightarrow> dimensions" where
  "lookup_dimensions aspect_ratio_key =
     (case map_of PREDEFINED_DIMENSIONS_MAP aspect_ratio_key of
        Some d \<Rightarrow> d
      | None \<Rightarrow> the (map_of PREDEFINED_DIMENSIONS_MAP ''1:1''))"

section \<open>JSON values\<close>

text \<open>
  What \<open>json.loads\<close> and \<open>response.json()\<close> return: \<open>None\<close>, a bool, an int, a float
  (a finite one, as the rational it denotes), a str, a list, or a dict with str keys.
  A dict is the list of its items, whose keys are pairwise distinct.
\<close>

datatype json =
    JNull
  | JBool bool
  | JInt int
  | JFloat rat
  | JStr string
  | JArr "json list"
  | JObj "(string \<times> json) list"

text \<open>Python's truth value of an object, as \<open>if x\<close>, \<open>not x\<close> and \<open>x and y\<close> test it.\<close>

fun truthy :: "json \<Rightarrow> bool" where
  "truthy JNull = False"
| "truthy (JBool b) = b"
| "truthy (JInt i) = (i \<noteq> 0)"
| "truthy (JFloat r) = (r \<noteq> 0)"
| "truthy (JStr s) = (s \<noteq> [])"
| "truthy (JArr xs) = (xs \<noteq> [])"
| "truthy (JObj kvs) = (kvs \<noteq> [])"

text \<open>
  Python's \<open>==\<close> on these values. Numbers compare by value across bool, int and float
  (\<open>True == 1 == 1.0\<close>); lists compare element by element; dicts are equal when they
  have the same keys with equal values.
\<close>

fun num_of :: "json \<Rightarrow> rat option" where
  "num_of (JBool b) = Some (if b then 1 else 0)"
| "num_of (JInt i) = Some (of_int i)"
| "num_of (JFloat r) = Some r"
| "num_of _ = None"

fun py_eq :: "json \<Rightarrow> json \<Rightarrow> bool"
  and py_eq_list :: "json list \<Rightarrow> json list \<Rightarrow> bool"
  and py_eq_items :: "(string \<times> json) list \<Rightarrow> (string \<times> json) list \<Rightarrow> bool"
where
  "py_eq JNull JNull = True"
| "py_eq (JStr s) (JStr t) = (s = t)"
| "py_eq (JArr xs) (JArr ys) = py_eq_list xs ys"
| "py_eq (JObj a) (JObj b) = (length a = length b \<and> py_eq_items a b)"
| "py_eq a b = (case (num_of a, num_of b) of (Some x, Some y) \<Rightarrow> x = y | _ \<Rightarrow> False)"
| "py_eq_list [] [] = True"
| "py_eq_list (x # xs) (y # ys) = (py_eq x y \<and> py_eq_list xs ys)"
| "py_eq_list _ _ = False"
| "py_eq_items [] b = True"
| "py_eq_items ((k, v) # a) b =
     ((case map_of b k of None \<Rightarrow> False | Some v' \<Rightarrow> py_eq v v') \<and> py_eq_items a b)"

text \<open>\<open>d.get(k)\<close> on a dict: the value, or \<open>None\<close> when the key is absent.\<close>

definition dict_get :: "(string \<times> json) list \<Rightarrow> string \<Rightarrow> json" where
  "dict_get d k = (case map_of d k of Some v \<Rightarrow> v | None \<Rightarrow> JNull)"

section \<open>Exceptions, the environment and the state of a run\<close>

text \<open>
  The exceptions that occur. \<open>GPUQuotaError\<close> is the class \<open>app.py\<close> defines (line 71);
  \<open>ValueError\<close>, \<open>ConnectionError\<close> and \<open>NameError\<close> are Python's built-in classes, with
  their message; \<open>Timeout\<close> and \<open>RequestException\<close> are those of \<open>requests.exceptions\<close>
  (\<open>Timeout\<close> is a subclass of \<open>RequestException\<close>, and is matched first wherever both
  are caught). \<open>AttributeError\<close>, \<open>TypeError\<close>, \<open>KeyError\<close> and \<open>IndexError\<close> are what
  Python raises when a method, a subscript, a key or an index is missing on a value of the
  wrong shape; no handler of the program tells them apart.
\<close>

datatype exn =
    GPUQuotaError string
  | ValueError string
  | ConnectionError string
  | NameError string
  | Timeout
  | RequestException string
  | AttributeError
  | TypeError
  | KeyError
  | IndexError

datatype verb = GET | POST

text \<open>
  An HTTP request as the program issues it; \<open>source_address\<close> is the address the session's
  adapter binds the connection to, \<open>None\<close> when no adapter is mounted (default routing).
\<close>

record request =
  verb :: verb
  url :: string
  payload :: "json option"
  source_address :: "string option"
  timeout :: nat

text \<open>
  What the network does with a request: \<open>requests\<close> raises \<open>Timeout\<close>, raises another
  \<open>RequestException\<close> (a connection fault, an error status at \<open>raise_for_status\<close>, a body
  \<open>response.json()\<close> cannot decode) whose \<open>str(e)\<close> is the text, or the exchange succeeds.
\<close>

datatype 'a reply = Timed_Out | Failed string | Answered 'a

text \<open>
  Everything outside the program, fixed for a run: the address list as loaded at startup
  (never written afterwards), the \<open>n\<close>-th HTTP exchange's reply and the time it takes,
  the \<open>n\<close>-th number Python's random generator yields, and \<open>json.loads\<close> (\<open>None\<close> where it
  raises \<open>JSONDecodeError\<close>). Exchanges are numbered in the order the run issues them.
\<close>

record env =
  IPV6_ADDRESSES :: "string list"
  post_reply :: "nat \<Rightarrow> json reply"
  get_reply :: "nat \<Rightarrow> string reply"
  elapsed :: "nat \<Rightarrow> nat"
  draws :: "nat \<Rightarrow> nat"
  json_loads :: "string \<Rightarrow> json option"

text \<open>
  What a run changes: the clock (\<open>time.time()\<close>, in whole time units), the number of random
  draws consumed, the requests issued so far (oldest first), the attempts started so far
  (address and \<open>retry_count\<close>, one entry per execution of line 243), and the local list
  \<open>tried_ips_in_this_run\<close>.
\<close>

record world =
  now :: nat
  rng :: nat
  sent :: "request list"
  attempts :: "(string option \<times> nat) list"
  tried_ips_in_this_run :: "string option list"

section \<open>Session tokens and random numbers\<close>

definition ALPHABET :: string where
  "ALPHABET = ''abcdefghijklmnopqrstuvwxyz0123456789''"

text \<open>
  \<open>random.choices(population, k=k)\<close> picks \<open>k\<close> times an element at a uniformly drawn index
  below \<open>len(population)\<close>; \<open>random.randint(a, b)\<close> draws from \<open>a..b\<close> inclusive.
\<close>

definition random_choices :: "env \<Rightarrow> 'a list \<Rightarrow> nat \<Rightarrow> world \<Rightarrow> 'a list \<times> world" where
  "random_choices E population k w =
     (map (\<lambda>i. population ! (draws E (rng w + i) mod length population)) [0..<k],
      w\<lparr>rng := rng w + k\<rparr>)"

definition random_randint :: "env \<Rightarrow> int \<Rightarrow> int \<Rightarrow> world \<Rightarrow> int \<times> world" where
  "random_randint E a b w =
     (a + int (draws E (rng w) mod nat (b - a + 1)), w\<lparr>rng := rng w + 1\<rparr>)"

definition generate_session_hash :: "env \<Rightarrow> world \<Rightarrow> string \<times> world" where
  "generate_session_hash E w = random_choices E ALPHABET 26 w"

section \<open>Submitting a job: \<open>call_gradio_api_with_ipv6\<close>\<close>

text \<open>Lines 113 and 148: \<^verbatim>\<open>if source_ip and source_ip in IPV6_ADDRESSES\<close>.\<close>

definition bound_source :: "env \<Rightarrow> string option \<Rightarrow> string option" where
  "bound_source E source_ip =
     (case source_ip of
        None \<Rightarrow> None
      | Some a \<Rightarrow> if a \<noteq> [] \<and> a \<in> set (IPV6_ADDRESSES E) then Some a else None)"

text \<open>Lines 124 to 132, on the decoded body of the answer.\<close>

definition join_result :: "json \<Rightarrow> exn + json" where
  "join_result result =
     (case result of
        JObj d \<Rightarrow>
          if \<not> truthy (dict_get d ''event_id'') \<and> truthy (dict_get d ''error'') then
            (case dict_get d ''error'' of
               JStr error_msg \<Rightarrow>
                 if is_resource_error error_msg
                 then Inl (GPUQuotaError
                        (''Server (GPU) resource limit encountered: '' @ take 150 error_msg))
                 else Inl (ValueError (''Error from /queue/join: '' @ error_msg))
             | _ \<Rightarrow> Inl AttributeError)
          else if \<not> truthy (dict_get d ''event_id'') then
            Inl (ValueError ''event_id not received from /queue/join.'')
          else Inr (dict_get d ''event_id'')
      | _ \<Rightarrow> Inl AttributeError)"

text \<open>Lines 102 to 120: the request \<open>s.post\<close> sends.\<close>

definition join_request ::
  "env \<Rightarrow> string \<Rightarrow> int \<Rightarrow> json list \<Rightarrow> string \<Rightarrow> int option \<Rightarrow> string option \<Rightarrow> request" where
  "join_request E base_url fn_index data_payload session_hash trigger_id source_ip =
     (let join_url = base_url @ ''/gradio_api/queue/join'';
          api_payload = JObj
            ([(''data'', JArr data_payload), (''event_data'', JNull),
              (''fn_index'', JInt fn_index), (''session_hash'', JStr session_hash)]
             @ (case trigger_id of None \<Rightarrow> [] | Some t \<Rightarrow> [(''trigger_id'', JInt t)]))
      in \<lparr>verb = POST, url = join_url, payload = Some api_payload,
          source_address = bound_source E source_ip, timeout = 90\<rparr>)"

definition call_gradio_api_with_ipv6 ::
  "env \<Rightarrow> string \<Rightarrow> int \<Rightarrow> json list \<Rightarrow> string \<Rightarrow> int option \<Rightarrow> string option \<Rightarrow> world
     \<Rightarrow> (exn + json) \<times> world" where
  "call_gradio_api_with_ipv6 E base_url fn_index data_payload session_hash trigger_id source_ip w =
     (let n = length (sent w);
          w' = w\<lparr>sent := sent w @
                  [join_request E base_url fn_index data_payload session_hash trigger_id
                     source_ip],
                now := now w + elapsed E n\<rparr>
      in case post_reply E n of
           Timed_Out \<Rightarrow>
             (Inl (ConnectionError
                (''Connection to '' @ base_url @ '' timed out after 90 seconds.'')), w')
         | Failed error_detail \<Rightarrow>
             (if is_resource_error error_detail
              then Inl (GPUQuotaError
                     (''Server (GPU) resource limit encountered: '' @ take 150 error_detail))
              else Inl (ConnectionError
                     (''Error connecting to '' @ base_url @ '': '' @ take 100 error_detail)),
              w')
         | Answered result \<Rightarrow> (join_result result, w'))"

section \<open>Awaiting a job: \<open>poll_gradio_sse_status\<close>\<close>

text \<open>\<open>str.isspace\<close> on the characters below 256, \<open>str.strip()\<close> and \<open>str.split('\n')\<close>.\<close>

definition is_space :: "char \<Rightarrow> bool" where
  "is_space c = ((of_char c :: nat) \<in> {9, 10, 11, 12, 13, 28, 29, 30, 31, 32, 133, 160})"

definition py_strip :: "string \<Rightarrow> string" where
  "py_strip s = rev (dropWhile is_space (rev (dropWhile is_space s)))"

fun py_split_nl :: "string \<Rightarrow> string list" where
  "py_split_nl [] = [[]]"
| "py_split_nl (c # cs) =
     (if c = CHR 0x0A then [] # py_split_nl cs
      else (case py_split_nl cs of l # ls \<Rightarrow> (c # l) # ls | [] \<Rightarrow> [[c]]))"

text \<open>\<open>str(n)\<close> of a natural number, for the f-string of line 212.\<close>

function str_nat :: "nat \<Rightarrow> string" where
  "str_nat n =
     (if n < 10 then [char_of (48 + n)] else str_nat (n div 10) @ [char_of (48 + n mod 10)])"
  by pat_completeness auto
termination
  by (relation "measure (\<lambda>n. n)") auto

declare str_nat.simps [simp del]

text \<open>
  Lines 165 to 173: the records of the response are decoded into \<open>processed_events\<close>; a
  record that does not start with \<open>data:\<close> is passed over, and so is one \<open>json.loads\<close>
  rejects (the \<open>continue\<close> of line 173, after a warning is printed).
\<close>

fun collect_events :: "env \<Rightarrow> string list \<Rightarrow> json list \<Rightarrow> json list" where
  "collect_events E [] processed_events = processed_events"
| "collect_events E (event_str # events) processed_events =
     (if startswith event_str ''data:'' then
        (case json_loads E (py_strip (drop (length ''data:'') event_str)) of
           Some event_data \<Rightarrow> collect_events E events (processed_events @ [event_data])
         | None \<Rightarrow> collect_events E events processed_events)
      else collect_events E events processed_events)"

text \<open>
  Lines 179 to 187, for a record \<open>d\<close> whose \<open>msg\<close> is \<open>process_completed\<close>: \<open>Inr data\<close> is
  the \<open>return\<close> of line 181, \<open>Inl\<close> an exception raised.
\<close>

definition process_completed :: "string \<Rightarrow> (string \<times> json) list \<Rightarrow> exn + json" where
  "process_completed service_name d =
     (let succeeded =
            (if truthy (dict_get d ''success'') \<and> truthy (dict_get d ''output'') then
               (case dict_get d ''output'' of
                  JObj out \<Rightarrow> Inr (truthy (dict_get out ''data''))
                | _ \<Rightarrow> Inl AttributeError)
             else Inr False);
          unknown = JStr (''Unknown error in '' @ service_name @ '' completion.'')
      in case succeeded of
           Inl e \<Rightarrow> Inl e
         | Inr True \<Rightarrow>
             (case dict_get d ''output'' of
                JObj out \<Rightarrow> Inr (dict_get out ''data'')
              | _ \<Rightarrow> Inl TypeError)
         | Inr False \<Rightarrow>
             (case (case map_of d ''output'' of
                      None \<Rightarrow> Inr unknown
                    | Some (JObj out) \<Rightarrow>
                        (case map_of out ''error'' of None \<Rightarrow> Inr unknown | Some v \<Rightarrow> Inr v)
                    | Some _ \<Rightarrow> Inl AttributeError) of
                Inl e \<Rightarrow> Inl e
              | Inr (JStr error_msg) \<Rightarrow>
                  if is_resource_error error_msg
                  then Inl (GPUQuotaError
                         (''Processing '' @ service_name @ '' failed with resource error: ''
                          @ error_msg))
                  else Inl (ValueError
                         (''Processing '' @ service_name @ '' failed: '' @ error_msg))
              | Inr _ \<Rightarrow> Inl AttributeError))"

text \<open>
  Lines 176 to 194, the loop over \<open>processed_events\<close>: \<open>Inr (Some data)\<close> is the \<open>return\<close> of
  line 181, \<open>Inr None\<close> the end of the loop, \<open>Inl\<close> an exception raised. A record that is
  not a dict has no \<open>get\<close>. The \<open>process_generating\<close> branch only prints.
\<close>

fun scan_events :: "json \<Rightarrow> string \<Rightarrow> json list \<Rightarrow> exn + json option" where
  "scan_events event_id service_name [] = Inr None"
| "scan_events event_id service_name (event_data # rest) =
     (case event_data of
        JObj d \<Rightarrow>
          if py_eq (dict_get d ''event_id'') event_id then
            (if py_eq (dict_get d ''msg'') (JStr ''process_completed'') then
               (case process_completed service_name d of
                  Inl e \<Rightarrow> Inl e
                | Inr data \<Rightarrow> Inr (Some data))
             else if py_eq (dict_get d ''msg'') (JStr ''process_generating'') then
               scan_events event_id service_name rest
             else if py_eq (dict_get d ''msg'') (JStr ''queue_full'') then
               Inl (GPUQuotaError (''Queue for '' @ service_name @ '' is full.''))
             else scan_events event_id service_name rest)
          else scan_events event_id service_name rest
      | _ \<Rightarrow> Inl AttributeError)"

text \<open>
  One pass through the body of the \<open>while\<close> loop, lines 156 to 210; \<open>data_request\<close> is
  the request \<open>s.get\<close> sends (lines 147 to 157). \<open>attempted\<close> is the
  outcome of the \<open>try\<close> block; the \<open>case\<close> on it is the block's end and its three \<open>except\<close>
  clauses, in the order of the source: \<open>Timeout\<close>, \<open>RequestException\<close>, \<open>Exception\<close>.
\<close>

datatype cycle = Cycle_Return json | Cycle_Raise exn | Cycle_Continue

definition data_request :: "env \<Rightarrow> string \<Rightarrow> string \<Rightarrow> string option \<Rightarrow> request" where
  "data_request E base_url session_hash source_ip =
     (let data_url = base_url @ ''/gradio_api/queue/data?session_hash='' @ session_hash
      in \<lparr>verb = GET, url = data_url, payload = None,
          source_address = bound_source E source_ip, timeout = 30\<rparr>)"

definition poll_cycle ::
  "env \<Rightarrow> string \<Rightarrow> string \<Rightarrow> json \<Rightarrow> string \<Rightarrow> string option \<Rightarrow> world \<Rightarrow> cycle \<times> world" where
  "poll_cycle E base_url session_hash event_id service_name source_ip w =
     (let n = length (sent w);
          w' = w\<lparr>sent := sent w @ [data_request E base_url session_hash source_ip],
                now := now w + elapsed E n\<rparr>;
          attempted =
            (case get_reply E n of
               Timed_Out \<Rightarrow> Inl Timeout
             | Failed error_detail \<Rightarrow> Inl (RequestException error_detail)
             | Answered text \<Rightarrow>
                 scan_events event_id service_name
                   (collect_events E (py_split_nl (py_strip text)) []))
      in case attempted of
           Inr (Some data) \<Rightarrow> (Cycle_Return data, w')
         | Inr None \<Rightarrow> (Cycle_Continue, w'\<lparr>now := now w' + 2\<rparr>)
         | Inl Timeout \<Rightarrow> (Cycle_Continue, w'\<lparr>now := now w' + 5\<rparr>)
         | Inl (RequestException error_detail) \<Rightarrow>
             (if is_resource_error error_detail
              then Cycle_Raise (GPUQuotaError
                     (''Polling '' @ service_name @ '' failed with resource error: ''
                      @ take 150 error_detail))
              else Cycle_Raise (ConnectionError
                     (''Error during polling '' @ service_name @ '': ''
                      @ take 100 error_detail)),
              w')
         | Inl e \<Rightarrow> (Cycle_Continue, w'\<lparr>now := now w' + 5\<rparr>))"

lemma poll_cycle_advances:
  "poll_cycle E base_url session_hash event_id service_name source_ip w = (Cycle_Continue, w')
   \<Longrightarrow> now w < now w'"
  by (auto simp: poll_cycle_def Let_def split: sum.splits option.splits exn.splits if_splits)

text \<open>The \<open>while\<close> loop of line 155 and the \<open>raise\<close> of line 212 behind it.\<close>

function poll_loop ::
  "env \<Rightarrow> string \<Rightarrow> string \<Rightarrow> json \<Rightarrow> string \<Rightarrow> string option \<Rightarrow> nat \<Rightarrow> nat \<Rightarrow> world
     \<Rightarrow> (exn + json) \<times> world" where
  "poll_loop E base_url session_hash event_id service_name source_ip max_poll_time start_time w =
     (if now w - start_time < max_poll_time then
        (case poll_cycle E base_url session_hash event_id service_name source_ip w of
           (Cycle_Return data, w') \<Rightarrow> (Inr data, w')
         | (Cycle_Raise e, w') \<Rightarrow> (Inl e, w')
         | (Cycle_Continue, w') \<Rightarrow>
             poll_loop E base_url session_hash event_id service_name source_ip
               max_poll_time start_time w')
      else
        (Inl (ConnectionError
           (''Polling '' @ service_name @ '' stream timed out after '' @ str_nat max_poll_time
            @ '' seconds. No completion received.'')), w))"
  by pat_completeness auto
termination
proof (relation "measure (\<lambda>(E, base_url, session_hash, event_id, service_name, source_ip,
                            max_poll_time, start_time, w). start_time + max_poll_time - now w)",
       goal_cases)
  case 1
  show ?case by simp
next
  case (2 E base_url session_hash event_id service_name source_ip max_poll_time start_time w c w')
  then have "poll_cycle E base_url session_hash event_id service_name source_ip w
               = (Cycle_Continue, w')"
    by simp
  then have "now w < now w'"
    by (rule poll_cycle_advances)
  with 2 show ?case
    by simp
qed

definition poll_gradio_sse_status ::
  "env \<Rightarrow> string \<Rightarrow> string \<Rightarrow> json \<Rightarrow> string \<Rightarrow> string option \<Rightarrow> nat \<Rightarrow> world
     \<Rightarrow> (exn + json) \<times> world" where
  "poll_gradio_sse_status E base_url session_hash event_id service_name source_ip max_poll_time w =
     poll_loop E base_url session_hash event_id service_name source_ip max_poll_time (now w) w"

declare poll_loop.simps [simp del]

section \<open>One attempt: translate, then render\<close>

definition IMAGE_GENERATOR_API_BASE_URL :: string where
  "IMAGE_GENERATOR_API_BASE_URL = ''https://black-forest-labs-flux-1-dev.hf.space''"

definition IMAGE_GENERATOR_FN_INDEX :: int where
  "IMAGE_GENERATOR_FN_INDEX = 2"

definition IMAGE_GENERATOR_TRIGGER_ID :: int where
  "IMAGE_GENERATOR_TRIGGER_ID = 5"

definition TRANSLATOR_API_BASE_URL :: string where
  "TRANSLATOR_API_BASE_URL = ''https://hamed744-translate-tts-aloha.hf.space''"

definition TRANSLATOR_FN_INDEX :: int where
  "TRANSLATOR_FN_INDEX = 1"

definition TRANSLATOR_OTHER_PARAMS :: "json list" where
  "TRANSLATOR_OTHER_PARAMS =
     [JStr
       [CHR 0xD8, CHR 0xA7, CHR 0xD9, CHR 0x86, CHR 0xDA, CHR 0xAF,
        CHR 0xD9, CHR 0x84, CHR 0xDB, CHR 0x8C, CHR 0xD8, CHR 0xB3,
        CHR 0xDB, CHR 0x8C, CHR 0x20, CHR 0x28, CHR 0xD8, CHR 0xA2,
        CHR 0xD9, CHR 0x85, CHR 0xD8, CHR 0xB1, CHR 0xDB, CHR 0x8C,
        CHR 0xDA, CHR 0xA9, CHR 0xD8, CHR 0xA7, CHR 0x29, CHR 0x20,
        CHR 0x2D, CHR 0x20, CHR 0xD8, CHR 0xAC, CHR 0xD9, CHR 0x86,
        CHR 0xDB, CHR 0x8C, CHR 0x20, CHR 0x28, CHR 0xD8, CHR 0xB2,
        CHR 0xD9, CHR 0x86, CHR 0x29],
      JInt 0, JInt 0, JInt 0]"

definition DEFAULT_RANDOMIZE_SEED :: bool where
  "DEFAULT_RANDOMIZE_SEED = True"

definition DEFAULT_GUIDANCE_SCALE :: rat where
  "DEFAULT_GUIDANCE_SCALE = 7 / 2"

definition DEFAULT_INFERENCE_STEPS :: int where
  "DEFAULT_INFERENCE_STEPS = 28"

text \<open>
  \<open>x[0]\<close> and \<open>x[:n]\<close> on a decoded value: a list and a str can be indexed and sliced, a
  dict has no key \<open>0\<close> (its keys are strs) and cannot be sliced, anything else cannot be
  subscripted.
\<close>

definition py_first :: "json \<Rightarrow> exn + json" where
  "py_first x =
     (case x of
        JArr (y # ys) \<Rightarrow> Inr y
      | JArr [] \<Rightarrow> Inl IndexError
      | JStr (c # cs) \<Rightarrow> Inr (JStr [c])
      | JStr [] \<Rightarrow> Inl IndexError
      | JObj d \<Rightarrow> Inl KeyError
      | _ \<Rightarrow> Inl TypeError)"

definition py_upto :: "nat \<Rightarrow> json \<Rightarrow> exn + json" where
  "py_upto n x =
     (case x of
        JArr ys \<Rightarrow> Inr (JArr (take n ys))
      | JStr cs \<Rightarrow> Inr (JStr (take n cs))
      | _ \<Rightarrow> Inl TypeError)"

text \<open>
  The result dict of lines 303 and 321, without its fixed Persian message: \<open>Generated u\<close> is
  \<open>{"success": True, "imageUrl": u, ...}\<close>, \<open>Exhausted\<close> is \<open>{"success": False, ...}\<close>.
\<close>

datatype pipeline_result = Generated string | Exhausted

text \<open>Lines 260 to 263: the translated prompt out of the translator's output data.\<close>

definition translated_prompt :: "json \<Rightarrow> exn + json" where
  "translated_prompt translated_prompt_data =
     (case (if truthy translated_prompt_data then
              (case py_first translated_prompt_data of
                 Inl e \<Rightarrow> Inl e
               | Inr x \<Rightarrow> if truthy x then Inr x else Inr (JStr []))
            else Inr (JStr [])) of
        Inl e \<Rightarrow> Inl e
      | Inr prompt_for_image \<Rightarrow>
          if \<not> truthy prompt_for_image
          then Inl (ValueError ''Failed to get a valid translation.'')
          else (case py_upto 50 prompt_for_image of
                  Inl e \<Rightarrow> Inl e
                | Inr shown \<Rightarrow> Inr prompt_for_image))"

text \<open>Lines 295 to 305: the image URL out of the image generator's output data.\<close>

definition final_image :: "json \<Rightarrow> exn + pipeline_result" where
  "final_image image_result_data =
     (let missing = Inl (ValueError ''Final image URL not received from Hugging Face.'')
      in if truthy image_result_data then
           (case py_first image_result_data of
              Inl e \<Rightarrow> Inl e
            | Inr (JObj d) \<Rightarrow>
                if d \<noteq> [] \<and> truthy (dict_get d ''url'') then
                  (case dict_get d ''url'' of
                     JStr final_image_url \<Rightarrow>
                       if startswith final_image_url ''http''
                       then Inr (Generated final_image_url)
                       else Inr (Generated (IMAGE_GENERATOR_API_BASE_URL @ final_image_url))
                   | _ \<Rightarrow> Inl AttributeError)
                else missing
            | Inr _ \<Rightarrow> missing)
         else missing)"

text \<open>Lines 267 to 276.\<close>

definition image_gen_payload :: "json \<Rightarrow> int \<Rightarrow> string \<Rightarrow> json list" where
  "image_gen_payload prompt_for_image seed aspect_ratio_key =
     (let dimensions = lookup_dimensions aspect_ratio_key
      in [prompt_for_image, JInt seed, JBool DEFAULT_RANDOMIZE_SEED,
          JInt (width dimensions), JInt (height dimensions),
          JFloat DEFAULT_GUIDANCE_SCALE, JInt DEFAULT_INFERENCE_STEPS])"

text \<open>Lines 266 to 305, the second stage, from the translated prompt on.\<close>

definition create_image ::
  "env \<Rightarrow> json \<Rightarrow> string \<Rightarrow> string option \<Rightarrow> world \<Rightarrow> (exn + pipeline_result) \<times> world" where
  "create_image E prompt_for_image aspect_ratio_key current_source_ip w =
     (case random_randint E 0 2147483647 w of
        (seed, w1) \<Rightarrow>
      (case generate_session_hash E w1 of
        (image_gen_session_hash, w2) \<Rightarrow>
      (case call_gradio_api_with_ipv6 E IMAGE_GENERATOR_API_BASE_URL IMAGE_GENERATOR_FN_INDEX
              (image_gen_payload prompt_for_image seed aspect_ratio_key)
              image_gen_session_hash (Some IMAGE_GENERATOR_TRIGGER_ID) current_source_ip w2 of
        (Inl e, w3) \<Rightarrow> (Inl e, w3)
      | (Inr image_gen_event_id, w3) \<Rightarrow>
      (case poll_gradio_sse_status E IMAGE_GENERATOR_API_BASE_URL image_gen_session_hash
              image_gen_event_id ''ImageGenerator'' current_source_ip 300 w3 of
        (Inl e, w4) \<Rightarrow> (Inl e, w4)
      | (Inr image_result_data, w4) \<Rightarrow> (final_image image_result_data, w4)))))"

text \<open>
  Lines 242 to 305, the body of the \<open>try\<close> block: one attempt with \<open>current_source_ip\<close>.
  Its first step is the INFO line of line 243, recorded in \<open>attempts\<close>.
\<close>

definition attempt ::
  "env \<Rightarrow> string \<Rightarrow> string \<Rightarrow> string option \<Rightarrow> nat \<Rightarrow> world
     \<Rightarrow> (exn + pipeline_result) \<times> world" where
  "attempt E persian_prompt aspect_ratio_key current_source_ip retry_count w =
     (let w0 = w\<lparr>attempts := attempts w @ [(current_source_ip, retry_count)]\<rparr>;
          translation_payload = JStr persian_prompt # TRANSLATOR_OTHER_PARAMS
      in
      (case generate_session_hash E w0 of
        (translator_session_hash, w1) \<Rightarrow>
      (case call_gradio_api_with_ipv6 E TRANSLATOR_API_BASE_URL TRANSLATOR_FN_INDEX
              translation_payload translator_session_hash None current_source_ip w1 of
        (Inl e, w2) \<Rightarrow> (Inl e, w2)
      | (Inr translator_event_id, w2) \<Rightarrow>
      (case poll_gradio_sse_status E TRANSLATOR_API_BASE_URL translator_session_hash
              translator_event_id ''Translator'' current_source_ip 300 w2 of
        (Inl e, w3) \<Rightarrow> (Inl e, w3)
      | (Inr translated_prompt_data, w3) \<Rightarrow>
      (case translated_prompt translated_prompt_data of
        Inl e \<Rightarrow> (Inl e, w3)
      | Inr prompt_for_image \<Rightarrow>
          create_image E prompt_for_image aspect_ratio_key current_source_ip w3)))))"

section \<open>Rotation: \<open>start_full_process_with_ipv6_rotation\<close>\<close>

definition max_retries_per_ip :: nat where
  "max_retries_per_ip = 2"

text \<open>
  The names bound in the module's global scope when a request is served: what lines 1 to
  10 import and what the module defines. Python looks a free name of a function body up
  here, then among the built-ins, and raises \<open>NameError\<close> when it is in neither.
\<close>

definition MODULE_GLOBALS :: "string list" where
  "MODULE_GLOBALS =
     [''requests'', ''HTTPAdapter'', ''random'', ''json'', ''time'', ''os'',
      ''FastAPI'', ''Request'', ''HTTPException'',
      ''HTMLResponse'', ''JSONResponse'', ''FileResponse'',
      ''CORSMiddleware'', ''BaseModel'',
      ''IPV6_ADDRESSES'', ''current_ipv6_index'', ''IPV6_LIST_FILE'', ''app'',
      ''SourceAddressAdapter'', ''load_ipv6_addresses'', ''startup_event'', ''GPUQuotaError'',
      ''IMAGE_GENERATOR_API_BASE_URL'', ''IMAGE_GENERATOR_FN_INDEX'',
      ''IMAGE_GENERATOR_TRIGGER_ID'', ''TRANSLATOR_API_BASE_URL'', ''TRANSLATOR_FN_INDEX'',
      ''TRANSLATOR_OTHER_PARAMS'', ''DEFAULT_RANDOMIZE_SEED'', ''DEFAULT_GUIDANCE_SCALE'',
      ''DEFAULT_INFERENCE_STEPS'', ''PREDEFINED_DIMENSIONS_MAP'', ''generate_session_hash'',
      ''call_gradio_api_with_ipv6'', ''poll_gradio_sse_status'',
      ''start_full_process_with_ipv6_rotation'', ''GenerateImageRequest'', ''read_root'',
      ''generate_image_endpoint'']"

text \<open>
  Line 314, \<^verbatim>\<open>await asyncio.sleep(2)\<close>: the name \<open>asyncio\<close> is looked up first; the sleep
  happens when the lookup succeeds.
\<close>

definition asyncio_sleep :: "nat \<Rightarrow> world \<Rightarrow> exn + world" where
  "asyncio_sleep delay w =
     (if ''asyncio'' \<in> set MODULE_GLOBALS then Inr (w\<lparr>now := now w + delay\<rparr>)
      else Inl (NameError (''name '' @ [CHR 0x27] @ ''asyncio'' @ [CHR 0x27] @ '' is not defined'')))"

text \<open>
  How the \<open>for\<close> loop of line 240 ends: the function returns (line 303), an exception
  leaves it, or the loop is over (its range is used up, or a \<open>break\<close>) and the \<open>while\<close>
  loop goes on.
\<close>

datatype loop_end = Returned pipeline_result | Raised exn | Next_Address

text \<open>
  Lines 240 to 318, over the values of \<open>retry_count\<close> still to come. The two \<open>except\<close>
  clauses are tried in the order of the source. An exception raised inside an \<open>except\<close>
  clause is not caught by the clauses of the same \<open>try\<close>: it leaves the function.
\<close>

fun retry_loop ::
  "env \<Rightarrow> string \<Rightarrow> string \<Rightarrow> string option \<Rightarrow> nat list \<Rightarrow> world \<Rightarrow> loop_end \<times> world" where
  "retry_loop E persian_prompt aspect_ratio_key current_source_ip [] w = (Next_Address, w)"
| "retry_loop E persian_prompt aspect_ratio_key current_source_ip (retry_count # later) w =
     (case attempt E persian_prompt aspect_ratio_key current_source_ip retry_count w of
        (Inr result, w') \<Rightarrow> (Returned result, w')
      | (Inl (GPUQuotaError message), w') \<Rightarrow> (Next_Address, w')
      | (Inl e, w') \<Rightarrow>
          if retry_count < max_retries_per_ip - 1 then
            (case asyncio_sleep 2 w' of
               Inl raised \<Rightarrow> (Raised raised, w')
             | Inr w'' \<Rightarrow>
                 retry_loop E persian_prompt aspect_ratio_key current_source_ip later w'')
          else (Next_Address, w'))"

text \<open>Lines 232 to 321, the \<open>while\<close> loop over \<open>available_ips_for_this_run\<close>.\<close>

fun rotation ::
  "env \<Rightarrow> string \<Rightarrow> string \<Rightarrow> string option list \<Rightarrow> world
     \<Rightarrow> (exn + pipeline_result) \<times> world" where
  "rotation E persian_prompt aspect_ratio_key [] w = (Inr Exhausted, w)"
| "rotation E persian_prompt aspect_ratio_key (current_source_ip # available_ips) w =
     (case retry_loop E persian_prompt aspect_ratio_key current_source_ip
             [0..<max_retries_per_ip]
             (w\<lparr>tried_ips_in_this_run := tried_ips_in_this_run w @ [current_source_ip]\<rparr>) of
        (Returned result, w') \<Rightarrow> (Inr result, w')
      | (Raised e, w') \<Rightarrow> (Inl e, w')
      | (Next_Address, w') \<Rightarrow> rotation E persian_prompt aspect_ratio_key available_ips w')"

text \<open>Lines 224 to 227: the addresses of this run, \<open>[None]\<close> when none is loaded.\<close>

definition available_ips_for_this_run :: "env \<Rightarrow> string option list" where
  "available_ips_for_this_run E =
     (if IPV6_ADDRESSES E = [] then [None] else map Some (IPV6_ADDRESSES E))"

definition start_full_process_with_ipv6_rotation ::
  "env \<Rightarrow> string \<Rightarrow> string \<Rightarrow> world \<Rightarrow> (exn + pipeline_result) \<times> world" where
  "start_full_process_with_ipv6_rotation E persian_prompt aspect_ratio_key w =
     rotation E persian_prompt aspect_ratio_key (available_ips_for_this_run E)
       (w\<lparr>tried_ips_in_this_run := []\<rparr>)"

section \<open>Sample environments\<close>

text \<open>
  Concrete environments on which the theorems below are exercised. The sample records of
  an event stream are a successful completion, a record cut short, a \<open>queue_full\<close> record
  and a failed completion; \<open>sample_loads\<close> decodes the three well-formed JSON texts among
  them as \<open>json.loads\<close> does and rejects every other text. In \<open>scripted\<close> every exchange
  takes one time unit and the \<open>n\<close>-th random draw is \<open>n\<close>. The named environments fix the
  replies: none ever arrives (\<open>unreachable\<close>); every submission fails with an error status
  (\<open>throttled\<close>) or a connection reset (\<open>reset_everywhere\<close>), or is answered with an error
  text (\<open>rejected_everywhere\<close>, \<open>quota_everywhere\<close>); every poll is answered with the same
  body (\<open>stream_of\<close>), or the first with a \<open>queue_full\<close> record and the later ones with the
  completion; in \<open>translated_then_unreachable\<close> the translation succeeds and nothing answers
  afterwards. \<open>idle\<close> is the state before a run.
\<close>

definition completed_line :: string where
  \<open>completed_line = ''data: {"msg": "process_completed", "event_id": "e1", "success": true, "output": {"data": ["a red fox"]}}''\<close>

definition malformed_line :: string where
  \<open>malformed_line = ''data: {"msg": "process_comp''\<close>

definition queue_full_line :: string where
  \<open>queue_full_line = ''data: {"msg": "queue_full", "event_id": "e1"}''\<close>

definition completed_record :: "(string \<times> json) list" where
  "completed_record =
     [(''msg'', JStr ''process_completed''), (''event_id'', JStr ''e1''),
      (''success'', JBool True), (''output'', JObj [(''data'', JArr [JStr ''a red fox''])])]"

definition failed_line :: string where
  \<open>failed_line = ''data: {"msg": "process_completed", "event_id": "e1", "success": false, "output": {"error": "GPU quota exceeded"}}''\<close>

definition sample_loads :: "string \<Rightarrow> json option" where
  \<open>sample_loads s =
     (if s = ''{"msg": "process_completed", "event_id": "e1", "success": true, "output": {"data": ["a red fox"]}}''
      then Some (JObj [(''msg'', JStr ''process_completed''), (''event_id'', JStr ''e1''),
                       (''success'', JBool True),
                       (''output'', JObj [(''data'', JArr [JStr ''a red fox''])])])
      else if s = ''{"msg": "process_completed", "event_id": "e1", "success": false, "output": {"error": "GPU quota exceeded"}}''
      then Some (JObj [(''msg'', JStr ''process_completed''), (''event_id'', JStr ''e1''),
                       (''success'', JBool False),
                       (''output'', JObj [(''error'', JStr ''GPU quota exceeded'')])])
      else if s = ''{"msg": "queue_full", "event_id": "e1"}''
      then Some (JObj [(''msg'', JStr ''queue_full''), (''event_id'', JStr ''e1'')])
      else None)\<close>

definition scripted ::
  "string list \<Rightarrow> (nat \<Rightarrow> json reply) \<Rightarrow> (nat \<Rightarrow> string reply) \<Rightarrow> env" where
  "scripted addresses posts gets =
     \<lparr>IPV6_ADDRESSES = addresses, post_reply = posts, get_reply = gets,
      elapsed = (\<lambda>n. 1), draws = (\<lambda>n. n), json_loads = sample_loads\<rparr>"

definition unreachable :: env where
  "unreachable = scripted [] (\<lambda>n. Timed_Out) (\<lambda>n. Timed_Out)"

definition throttled :: env where
  "throttled =
     scripted [] (\<lambda>n. Failed ''429 Too Many Requests for url'') (\<lambda>n. Timed_Out)"

definition reset_everywhere :: "string list \<Rightarrow> env" where
  "reset_everywhere addresses =
     scripted addresses (\<lambda>n. Failed ''Connection reset by peer'') (\<lambda>n. Timed_Out)"

definition rejected_everywhere :: "string list \<Rightarrow> env" where
  "rejected_everywhere addresses =
     scripted addresses (\<lambda>n. Answered (JObj [(''error'', JStr ''Invalid prompt'')]))
       (\<lambda>n. Timed_Out)"

definition quota_everywhere :: "string list \<Rightarrow> env" where
  "quota_everywhere addresses =
     scripted addresses (\<lambda>n. Answered (JObj [(''error'', JStr ''GPU quota exceeded'')]))
       (\<lambda>n. Timed_Out)"

definition stream_of :: "string \<Rightarrow> env" where
  "stream_of body = scripted [] (\<lambda>n. Timed_Out) (\<lambda>n. Answered body)"

definition queue_full_then_completed :: env where
  "queue_full_then_completed =
     scripted [] (\<lambda>n. Timed_Out)
       (\<lambda>n. if n = 0 then Answered queue_full_line else Answered completed_line)"

definition translated_then_unreachable :: env where
  "translated_then_unreachable =
     scripted []
       (\<lambda>n. if n = 0 then Answered (JObj [(''event_id'', JStr ''e1'')]) else Timed_Out)
       (\<lambda>n. Answered completed_line)"

definition idle :: world where
  "idle = \<lparr>now = 0, rng = 0, sent = [], attempts = [], tried_ips_in_this_run = []\<rparr>"

section \<open>Error classification is a keyword match on the lower-cased text\<close>

lemma startswith_iff: "startswith s p \<longleftrightarrow> (\<exists>rest. s = p @ rest)"
proof
  assume "startswith s p"
  then have "s = p @ drop (length p) s"
    unfolding startswith_def by (metis append_take_drop_id)
  then show "\<exists>rest. s = p @ rest" ..
next
  assume "\<exists>rest. s = p @ rest"
  then show "startswith s p"
    unfolding startswith_def by auto
qed

lemma py_in_iff: "py_in kw s \<longleftrightarrow> (\<exists>before after. s = before @ kw @ after)"
proof (induction s)
  case Nil
  show ?case by auto
next
  case (Cons c cs)
  show ?case
  proof
    assume "py_in kw (c # cs)"
    then consider "startswith (c # cs) kw" | "py_in kw cs" by auto
    then show "\<exists>before after. c # cs = before @ kw @ after"
    proof cases
      case 1
      then obtain rest where "c # cs = kw @ rest" unfolding startswith_iff by blast
      then have "c # cs = [] @ kw @ rest" by simp
      then show ?thesis by blast
    next
      case 2
      with Cons.IH obtain before after where "cs = before @ kw @ after" by blast
      then have "c # cs = (c # before) @ kw @ after" by simp
      then show ?thesis by blast
    qed
  next
    assume "\<exists>before after. c # cs = before @ kw @ after"
    then obtain before after where eq: "c # cs = before @ kw @ after" by blast
    show "py_in kw (c # cs)"
    proof (cases before)
      case Nil
      with eq have "startswith (c # cs) kw" unfolding startswith_iff by auto
      then show ?thesis by simp
    next
      case (Cons b bs)
      with eq have "cs = bs @ kw @ after" by simp
      with Cons.IH have "py_in kw cs" by blast
      then show ?thesis by simp
    qed
  qed
qed

text \<open>
  Claim C9. The classification of an error text is a function of the text alone: it is
  \<open>True\<close> (resource exhaustion) exactly when one of the eight fixed keywords occurs as a
  contiguous run in the lower-cased text, so two texts that differ only in the case of
  their letters are classified alike, and classifying a text again gives the same answer.
\<close>

theorem classification_by_keywords:
  "(is_resource_error error_msg \<longleftrightarrow>
      (\<exists>kw \<in> set RESOURCE_KEYWORDS.
         \<exists>before after. py_lower error_msg = before @ kw @ after))
   \<and> (py_lower other_msg = py_lower error_msg
        \<longrightarrow> is_resource_error other_msg = is_resource_error error_msg)"
  by (simp add: is_resource_error_def Let_def list_ex_iff py_in_iff)

theorem classification_by_keywords_witness:
  "py_lower ''Rate Limit reached'' = py_lower ''RATE LIMIT reached''
   \<and> is_resource_error ''Rate Limit reached'' = is_resource_error ''RATE LIMIT reached''
   \<and> is_resource_error ''RATE LIMIT reached''
   \<and> \<not> is_resource_error ''Connection reset by peer''"
proof -
  have same: "py_lower ''Rate Limit reached'' = py_lower ''RATE LIMIT reached''"
    by code_simp
  have hit: "is_resource_error ''RATE LIMIT reached''"
    by code_simp
  have miss: "\<not> is_resource_error ''Connection reset by peer''"
    by code_simp
  from classification_by_keywords [of "''RATE LIMIT reached''" "''Rate Limit reached''"] same
  have "is_resource_error ''Rate Limit reached'' = is_resource_error ''RATE LIMIT reached''"
    by blast
  with same hit miss show ?thesis by blast
qed

section \<open>What a call leaves behind\<close>

lemma scripted_simps [simp]:
  "IPV6_ADDRESSES (scripted addresses posts gets) = addresses"
  "post_reply (scripted addresses posts gets) = posts"
  "get_reply (scripted addresses posts gets) = gets"
  "elapsed (scripted addresses posts gets) = (\<lambda>n. 1)"
  "draws (scripted addresses posts gets) = (\<lambda>n. n)"
  "json_loads (scripted addresses posts gets) = sample_loads"
  by (simp_all add: scripted_def)

lemma sample_env_simps [simp]:
  "IPV6_ADDRESSES unreachable = []" "post_reply unreachable = (\<lambda>n. Timed_Out)"
  "IPV6_ADDRESSES throttled = []"
  "post_reply throttled = (\<lambda>n. Failed ''429 Too Many Requests for url'')"
  "IPV6_ADDRESSES (reset_everywhere addresses) = addresses"
  "post_reply (reset_everywhere addresses) = (\<lambda>n. Failed ''Connection reset by peer'')"
  "IPV6_ADDRESSES (rejected_everywhere addresses) = addresses"
  "IPV6_ADDRESSES (quota_everywhere addresses) = addresses"
  "get_reply (stream_of body) = (\<lambda>n. Answered body)"
  "json_loads (stream_of body) = sample_loads"
  "draws unreachable = (\<lambda>n. n)"
  by (simp_all add: unreachable_def throttled_def reset_everywhere_def rejected_everywhere_def
      quota_everywhere_def stream_of_def)

lemma idle_simps [simp]:
  "now idle = 0" "rng idle = 0" "sent idle = []" "attempts idle = []"
  "tried_ips_in_this_run idle = []"
  by (simp_all add: idle_def)

lemma call_frame:
  assumes "call_gradio_api_with_ipv6 E b f d sh t ip w = (r, w')"
  shows "sent w' = sent w @ [join_request E b f d sh t ip]"
    and "rng w' = rng w" and "attempts w' = attempts w"
    and "tried_ips_in_this_run w' = tried_ips_in_this_run w"
  using assms
  by (auto simp: call_gradio_api_with_ipv6_def Let_def split: reply.splits if_splits)

lemma poll_cycle_frame:
  assumes "poll_cycle E b sh ev sn ip w = (c, w')"
  shows "sent w' = sent w @ [data_request E b sh ip]"
    and "rng w' = rng w" and "attempts w' = attempts w"
    and "tried_ips_in_this_run w' = tried_ips_in_this_run w"
  using assms
  by (auto simp: poll_cycle_def Let_def split: sum.splits option.splits exn.splits if_splits)

lemma poll_loop_frame:
  "poll_loop E b sh ev sn ip m st w = (r, w') \<Longrightarrow>
     (\<exists>n. sent w' = sent w @ replicate n (data_request E b sh ip))
     \<and> rng w' = rng w \<and> attempts w' = attempts w
     \<and> tried_ips_in_this_run w' = tried_ips_in_this_run w"
proof (induction E b sh ev sn ip m st w rule: poll_loop.induct)
  case (1 E b sh ev sn ip m st w)
  show ?case
  proof (cases "now w - st < m")
    case False
    with "1.prems" have "w' = w"
      by (simp add: poll_loop.simps)
    then have "sent w' = sent w @ replicate 0 (data_request E b sh ip)" by simp
    with \<open>w' = w\<close> show ?thesis by blast
  next
    case True
    obtain c w1 where cyc: "poll_cycle E b sh ev sn ip w = (c, w1)"
      by (cases "poll_cycle E b sh ev sn ip w")
    note fr = poll_cycle_frame [OF cyc]
    show ?thesis
    proof (cases c)
      case (Cycle_Return data)
      with True cyc "1.prems" have "w' = w1" by (simp add: poll_loop.simps)
      with fr have "sent w' = sent w @ replicate 1 (data_request E b sh ip)" by simp
      with fr \<open>w' = w1\<close> show ?thesis by blast
    next
      case (Cycle_Raise e)
      with True cyc "1.prems" have "w' = w1" by (simp add: poll_loop.simps)
      with fr have "sent w' = sent w @ replicate 1 (data_request E b sh ip)" by simp
      with fr \<open>w' = w1\<close> show ?thesis by blast
    next
      case Cycle_Continue
      with True cyc "1.prems" have rest: "poll_loop E b sh ev sn ip m st w1 = (r, w')"
        by (simp add: poll_loop.simps)
      from "1.IH" [OF True cyc [symmetric] Cycle_Continue rest]
      obtain n where n: "sent w' = sent w1 @ replicate n (data_request E b sh ip)"
        and others: "rng w' = rng w1" "attempts w' = attempts w1"
          "tried_ips_in_this_run w' = tried_ips_in_this_run w1"
        by blast
      from n fr have "sent w' = sent w @ replicate (Suc n) (data_request E b sh ip)"
        by simp
      with others fr show ?thesis by metis
    qed
  qed
qed

lemma session_hash_rng:
  "rng w1 = rng w2 \<Longrightarrow> fst (generate_session_hash E w1) = fst (generate_session_hash E w2)"
  by (simp add: generate_session_hash_def random_choices_def)

lemma randint_rng:
  "rng w1 = rng w2 \<Longrightarrow> fst (random_randint E a b w1) = fst (random_randint E a b w2)"
  by (simp add: random_randint_def)

lemma create_image_requests:
  assumes "create_image E prompt k ip w = (r, w')"
  shows "\<exists>m. sent w' = sent w @
           join_request E IMAGE_GENERATOR_API_BASE_URL IMAGE_GENERATOR_FN_INDEX
             (image_gen_payload prompt (fst (random_randint E 0 2147483647 w)) k)
             (fst (generate_session_hash E (w\<lparr>rng := rng w + 1\<rparr>)))
             (Some IMAGE_GENERATOR_TRIGGER_ID) ip
           # replicate m (data_request E IMAGE_GENERATOR_API_BASE_URL
               (fst (generate_session_hash E (w\<lparr>rng := rng w + 1\<rparr>))) ip)"
    and "attempts w' = attempts w"
    and "tried_ips_in_this_run w' = tried_ips_in_this_run w"
proof -
  define seed where "seed = fst (random_randint E 0 2147483647 w)"
  define w1 where "w1 = w\<lparr>rng := rng w + 1\<rparr>"
  define tok where "tok = fst (generate_session_hash E w1)"
  define w2 where "w2 = w1\<lparr>rng := rng w1 + 26\<rparr>"
  have r1: "random_randint E 0 2147483647 w = (seed, w1)"
    by (simp add: random_randint_def seed_def w1_def)
  have g: "generate_session_hash E w1 = (tok, w2)"
    by (simp add: generate_session_hash_def random_choices_def tok_def w2_def)
  obtain r3 w3 where c: "call_gradio_api_with_ipv6 E IMAGE_GENERATOR_API_BASE_URL
      IMAGE_GENERATOR_FN_INDEX (image_gen_payload prompt seed k) tok
      (Some IMAGE_GENERATOR_TRIGGER_ID) ip w2 = (r3, w3)"
    by fastforce
  note f3 = call_frame [OF c]
  have base: "sent w2 = sent w" "attempts w2 = attempts w"
    "tried_ips_in_this_run w2 = tried_ips_in_this_run w"
    by (simp_all add: w2_def w1_def)
  let ?join = "join_request E IMAGE_GENERATOR_API_BASE_URL IMAGE_GENERATOR_FN_INDEX
      (image_gen_payload prompt seed k) tok (Some IMAGE_GENERATOR_TRIGGER_ID) ip"
  let ?data = "data_request E IMAGE_GENERATOR_API_BASE_URL tok ip"
  have "(\<exists>m. sent w' = sent w @ ?join # replicate m ?data)
        \<and> attempts w' = attempts w \<and> tried_ips_in_this_run w' = tried_ips_in_this_run w"
  proof (cases r3)
    case (Inl e)
    with assms r1 g c have "w' = w3"
      by (simp add: create_image_def)
    with f3 base have "sent w' = sent w @ ?join # replicate 0 ?data" by simp
    with f3 base \<open>w' = w3\<close> show ?thesis by metis
  next
    case (Inr ev)
    obtain r4 w4 where p: "poll_gradio_sse_status E IMAGE_GENERATOR_API_BASE_URL tok ev
        ''ImageGenerator'' ip 300 w3 = (r4, w4)"
      by fastforce
    from poll_loop_frame [OF p [unfolded poll_gradio_sse_status_def]]
    obtain m where m: "sent w4 = sent w3 @ replicate m ?data"
      and o4: "attempts w4 = attempts w3"
        "tried_ips_in_this_run w4 = tried_ips_in_this_run w3"
      by blast
    from assms r1 g c Inr p have "w' = w4"
      by (auto simp: create_image_def split: sum.splits)
    with m f3 base have "sent w' = sent w @ ?join # replicate m ?data" by simp
    with o4 f3 base \<open>w' = w4\<close> show ?thesis by metis
  qed
  then show "\<exists>m. sent w' = sent w @
           join_request E IMAGE_GENERATOR_API_BASE_URL IMAGE_GENERATOR_FN_INDEX
             (image_gen_payload prompt (fst (random_randint E 0 2147483647 w)) k)
             (fst (generate_session_hash E (w\<lparr>rng := rng w + 1\<rparr>)))
             (Some IMAGE_GENERATOR_TRIGGER_ID) ip
           # replicate m (data_request E IMAGE_GENERATOR_API_BASE_URL
               (fst (generate_session_hash E (w\<lparr>rng := rng w + 1\<rparr>))) ip)"
    and "attempts w' = attempts w"
    and "tried_ips_in_this_run w' = tried_ips_in_this_run w"
    by (simp_all add: seed_def tok_def w1_def)
qed

lemma attempt_requests:
  assumes "attempt E p k ip rc w = (r, w')"
  shows "\<exists>n tail.
           sent w' = sent w @
             join_request E TRANSLATOR_API_BASE_URL TRANSLATOR_FN_INDEX
               (JStr p # TRANSLATOR_OTHER_PARAMS) (fst (generate_session_hash E w)) None ip
             # replicate n (data_request E TRANSLATOR_API_BASE_URL
                 (fst (generate_session_hash E w)) ip)
             @ tail
           \<and> (tail = [] \<or>
               (\<exists>prompt m. tail =
                  join_request E IMAGE_GENERATOR_API_BASE_URL IMAGE_GENERATOR_FN_INDEX
                    (image_gen_payload prompt
                       (fst (random_randint E 0 2147483647 (w\<lparr>rng := rng w + 26\<rparr>))) k)
                    (fst (generate_session_hash E (w\<lparr>rng := rng w + 27\<rparr>)))
                    (Some IMAGE_GENERATOR_TRIGGER_ID) ip
                  # replicate m (data_request E IMAGE_GENERATOR_API_BASE_URL
                      (fst (generate_session_hash E (w\<lparr>rng := rng w + 27\<rparr>))) ip)))"
    and "attempts w' = attempts w @ [(ip, rc)]"
    and "tried_ips_in_this_run w' = tried_ips_in_this_run w"
proof -
  define w0 where "w0 = w\<lparr>attempts := attempts w @ [(ip, rc)]\<rparr>"
  define tok where "tok = fst (generate_session_hash E w)"
  define w1 where "w1 = w0\<lparr>rng := rng w0 + 26\<rparr>"
  have g: "generate_session_hash E w0 = (tok, w1)"
    by (simp add: generate_session_hash_def random_choices_def tok_def w1_def w0_def)
  let ?join = "join_request E TRANSLATOR_API_BASE_URL TRANSLATOR_FN_INDEX
      (JStr p # TRANSLATOR_OTHER_PARAMS) tok None ip"
  let ?data = "data_request E TRANSLATOR_API_BASE_URL tok ip"
  let ?tok2 = "fst (generate_session_hash E (w\<lparr>rng := rng w + 27\<rparr>))"
  let ?seed = "fst (random_randint E 0 2147483647 (w\<lparr>rng := rng w + 26\<rparr>))"
  let ?P = "\<lambda>tail. tail = [] \<or>
               (\<exists>prompt m. tail =
                  join_request E IMAGE_GENERATOR_API_BASE_URL IMAGE_GENERATOR_FN_INDEX
                    (image_gen_payload prompt ?seed k) ?tok2
                    (Some IMAGE_GENERATOR_TRIGGER_ID) ip
                  # replicate m (data_request E IMAGE_GENERATOR_API_BASE_URL ?tok2 ip))"
  obtain r2 w2 where c: "call_gradio_api_with_ipv6 E TRANSLATOR_API_BASE_URL
      TRANSLATOR_FN_INDEX (JStr p # TRANSLATOR_OTHER_PARAMS) tok None ip w1 = (r2, w2)"
    by fastforce
  note f2 = call_frame [OF c]
  have base: "sent w1 = sent w" "attempts w1 = attempts w @ [(ip, rc)]"
    "tried_ips_in_this_run w1 = tried_ips_in_this_run w" "rng w1 = rng w + 26"
    by (simp_all add: w1_def w0_def)
  have unfolded: "attempt E p k ip rc w =
      (case r2 of
         Inl e \<Rightarrow> (Inl e, w2)
       | Inr translator_event_id \<Rightarrow>
           (case poll_gradio_sse_status E TRANSLATOR_API_BASE_URL tok
                   translator_event_id ''Translator'' ip 300 w2 of
              (Inl e, w3) \<Rightarrow> (Inl e, w3)
            | (Inr translated_prompt_data, w3) \<Rightarrow>
                (case translated_prompt translated_prompt_data of
                   Inl e \<Rightarrow> (Inl e, w3)
                 | Inr prompt_for_image \<Rightarrow> create_image E prompt_for_image k ip w3)))"
    using g c by (simp add: attempt_def Let_def w0_def)
  have "(\<exists>n tail. sent w' = sent w @ ?join # replicate n ?data @ tail \<and> ?P tail)
        \<and> attempts w' = attempts w @ [(ip, rc)]
        \<and> tried_ips_in_this_run w' = tried_ips_in_this_run w"
  proof (cases r2)
    case (Inl e)
    with assms unfolded have "w' = w2" by simp
    with f2 base have "sent w' = sent w @ ?join # replicate 0 ?data @ []" by simp
    moreover have "?P []" by simp
    ultimately have "\<exists>n tail. sent w' = sent w @ ?join # replicate n ?data @ tail \<and> ?P tail"
      by blast
    with f2 base \<open>w' = w2\<close> show ?thesis by simp
  next
    case (Inr ev)
    obtain r3 w3 where p: "poll_gradio_sse_status E TRANSLATOR_API_BASE_URL tok ev
        ''Translator'' ip 300 w2 = (r3, w3)"
      by fastforce
    from poll_loop_frame [OF p [unfolded poll_gradio_sse_status_def]]
    obtain n where n: "sent w3 = sent w2 @ replicate n ?data"
      and o3: "attempts w3 = attempts w2" "rng w3 = rng w2"
        "tried_ips_in_this_run w3 = tried_ips_in_this_run w2"
      by blast
    have sent3: "sent w3 = sent w @ ?join # replicate n ?data @ []"
      using n f2 base by simp
    have early: ?thesis if "w' = w3"
    proof -
      have "?P []" by simp
      with sent3 that
      have "\<exists>n tail. sent w' = sent w @ ?join # replicate n ?data @ tail \<and> ?P tail"
        by blast
      with o3 f2 base that show ?thesis by simp
    qed
    show ?thesis
    proof (cases r3)
      case (Inl e)
      with assms unfolded Inr p have "w' = w3" by simp
      then show ?thesis by (rule early)
    next
      case data: (Inr translated_prompt_data)
      show ?thesis
      proof (cases "translated_prompt translated_prompt_data")
        case (Inl e)
        with assms unfolded Inr p data have "w' = w3" by simp
        then show ?thesis by (rule early)
      next
        case prompt: (Inr prompt_for_image)
        with assms unfolded Inr p data
        have ci: "create_image E prompt_for_image k ip w3 = (r, w')" by simp
        have rng3: "rng w3 = rng w + 26"
          using o3 f2 base by simp
        have seed: "fst (random_randint E 0 2147483647 w3) = ?seed"
          by (rule randint_rng) (simp add: rng3)
        have tok2: "fst (generate_session_hash E (w3\<lparr>rng := rng w3 + 1\<rparr>)) = ?tok2"
          by (rule session_hash_rng) (simp add: rng3)
        from create_image_requests [OF ci]
        obtain m where m: "sent w' = sent w3 @
            join_request E IMAGE_GENERATOR_API_BASE_URL IMAGE_GENERATOR_FN_INDEX
              (image_gen_payload prompt_for_image ?seed k) ?tok2
              (Some IMAGE_GENERATOR_TRIGGER_ID) ip
            # replicate m (data_request E IMAGE_GENERATOR_API_BASE_URL ?tok2 ip)"
          and o': "attempts w' = attempts w3"
            "tried_ips_in_this_run w' = tried_ips_in_this_run w3"
          unfolding seed tok2 by blast
        let ?tail = "join_request E IMAGE_GENERATOR_API_BASE_URL IMAGE_GENERATOR_FN_INDEX
              (image_gen_payload prompt_for_image ?seed k) ?tok2
              (Some IMAGE_GENERATOR_TRIGGER_ID) ip
            # replicate m (data_request E IMAGE_GENERATOR_API_BASE_URL ?tok2 ip)"
        have "sent w' = sent w @ ?join # replicate n ?data @ ?tail"
          using m sent3 by simp
        moreover have "?P ?tail" by blast
        ultimately
        have "\<exists>n tail. sent w' = sent w @ ?join # replicate n ?data @ tail \<and> ?P tail"
          by blast
        with o' o3 f2 base show ?thesis by simp
      qed
    qed
  qed
  then show "\<exists>n tail.
           sent w' = sent w @
             join_request E TRANSLATOR_API_BASE_URL TRANSLATOR_FN_INDEX
               (JStr p # TRANSLATOR_OTHER_PARAMS) (fst (generate_session_hash E w)) None ip
             # replicate n (data_request E TRANSLATOR_API_BASE_URL
                 (fst (generate_session_hash E w)) ip)
             @ tail
           \<and> (tail = [] \<or>
               (\<exists>prompt m. tail =
                  join_request E IMAGE_GENERATOR_API_BASE_URL IMAGE_GENERATOR_FN_INDEX
                    (image_gen_payload prompt
                       (fst (random_randint E 0 2147483647 (w\<lparr>rng := rng w + 26\<rparr>))) k)
                    (fst (generate_session_hash E (w\<lparr>rng := rng w + 27\<rparr>)))
                    (Some IMAGE_GENERATOR_TRIGGER_ID) ip
                  # replicate m (data_request E IMAGE_GENERATOR_API_BASE_URL
                      (fst (generate_session_hash E (w\<lparr>rng := rng w + 27\<rparr>))) ip)))"
    and "attempts w' = attempts w @ [(ip, rc)]"
    and "tried_ips_in_this_run w' = tried_ips_in_this_run w"
    by (simp_all add: tok_def)
qed

section \<open>Faults of the submission\<close>

text \<open>
  Claim C6. A submission is sent with a timeout of 90. When the exchange times out, the call
  fails with a \<open>ConnectionError\<close> that names the base URL and the 90 seconds. When it
  fails in another way, the call fails with a \<open>GPUQuotaError\<close> carrying the first 150
  characters of the fault text if that text matches the resource keywords, and otherwise
  with a \<open>ConnectionError\<close> carrying its first 100 characters.
\<close>

theorem submit_faults:
  "timeout (join_request E base_url fn_index data_payload session_hash trigger_id source_ip) = 90
   \<and> (post_reply E (length (sent w)) = Timed_Out \<longrightarrow>
        fst (call_gradio_api_with_ipv6 E base_url fn_index data_payload session_hash
               trigger_id source_ip w)
        = Inl (ConnectionError (''Connection to '' @ base_url @ '' timed out after 90 seconds.'')))
   \<and> (post_reply E (length (sent w)) = Failed error_detail \<and> is_resource_error error_detail \<longrightarrow>
        (\<exists>diagnostic. length diagnostic \<le> 150 \<and> diagnostic = take 150 error_detail \<and>
           fst (call_gradio_api_with_ipv6 E base_url fn_index data_payload session_hash
                  trigger_id source_ip w)
           = Inl (GPUQuotaError (''Server (GPU) resource limit encountered: '' @ diagnostic))))
   \<and> (post_reply E (length (sent w)) = Failed error_detail \<and> \<not> is_resource_error error_detail \<longrightarrow>
        (\<exists>diagnostic. length diagnostic \<le> 100 \<and> diagnostic = take 100 error_detail \<and>
           fst (call_gradio_api_with_ipv6 E base_url fn_index data_payload session_hash
                  trigger_id source_ip w)
           = Inl (ConnectionError (''Error connecting to '' @ base_url @ '': '' @ diagnostic))))"
  by (simp add: call_gradio_api_with_ipv6_def join_request_def Let_def)

theorem submit_faults_witness:
  "fst (call_gradio_api_with_ipv6 (unreachable)
          ''https://svc'' 1 [] ''tok'' None None idle)
     = Inl (ConnectionError ''Connection to https://svc timed out after 90 seconds.'')
   \<and> fst (call_gradio_api_with_ipv6
            (throttled)
            ''https://svc'' 1 [] ''tok'' None None idle)
     = Inl (GPUQuotaError
         ''Server (GPU) resource limit encountered: 429 Too Many Requests for url'')
   \<and> fst (call_gradio_api_with_ipv6
            (reset_everywhere [])
            ''https://svc'' 1 [] ''tok'' None None idle)
     = Inl (ConnectionError ''Error connecting to https://svc: Connection reset by peer'')"
proof -
  have hit: "is_resource_error ''429 Too Many Requests for url''" by code_simp
  have miss: "\<not> is_resource_error ''Connection reset by peer''" by code_simp
  show ?thesis
    using hit miss
      submit_faults [of "unreachable"
        "''https://svc''" 1 "[]" "''tok''" None None idle]
      submit_faults [of "throttled"
        "''https://svc''" 1 "[]" "''tok''" None None idle  "''429 Too Many Requests for url''"]
      submit_faults [of "reset_everywhere []"
        "''https://svc''" 1 "[]" "''tok''" None None idle  "''Connection reset by peer''"]
    by simp
qed

section \<open>The render payload\<close>

text \<open>
  Claim C7. The data of the render submission are the translated prompt, the seed, the
  seed-randomisation flag, the width, the height, the guidance scale 3.5 and the step count
  28, and the submission is the first request the render stage sends. The width and the
  height are those the aspect-ratio table gives for the key: 768 and 1344 for \<open>9:16\<close>, and
  the pair of the square entry, 1024 and 1024, for a key the table does not hold.
\<close>

theorem render_dimensions:
  "image_gen_payload prompt_for_image seed aspect_ratio_key =
     [prompt_for_image, JInt seed, JBool True,
      JInt (width (lookup_dimensions aspect_ratio_key)),
      JInt (height (lookup_dimensions aspect_ratio_key)),
      JFloat (7 / 2), JInt 28]
   \<and> (\<forall>d. (aspect_ratio_key, d) \<in> set PREDEFINED_DIMENSIONS_MAP
          \<longrightarrow> lookup_dimensions aspect_ratio_key = d)
   \<and> lookup_dimensions ''9:16'' = \<lparr>width = 768, height = 1344\<rparr>
   \<and> (aspect_ratio_key \<notin> fst ` set PREDEFINED_DIMENSIONS_MAP
        \<longrightarrow> lookup_dimensions aspect_ratio_key = \<lparr>width = 1024, height = 1024\<rparr>)
   \<and> (\<exists>seed session_hash later.
         sent (snd (create_image E prompt_for_image aspect_ratio_key current_source_ip w)) =
           sent w @
           join_request E IMAGE_GENERATOR_API_BASE_URL IMAGE_GENERATOR_FN_INDEX
             (image_gen_payload prompt_for_image seed aspect_ratio_key)
             session_hash (Some IMAGE_GENERATOR_TRIGGER_ID) current_source_ip
           # later)"
proof -
  have distinct_keys: "distinct (map fst PREDEFINED_DIMENSIONS_MAP)"
    by (simp add: PREDEFINED_DIMENSIONS_MAP_def)
  have payload: "image_gen_payload prompt_for_image seed aspect_ratio_key =
     [prompt_for_image, JInt seed, JBool True,
      JInt (width (lookup_dimensions aspect_ratio_key)),
      JInt (height (lookup_dimensions aspect_ratio_key)),
      JFloat (7 / 2), JInt 28]"
    by (simp add: image_gen_payload_def Let_def DEFAULT_RANDOMIZE_SEED_def
        DEFAULT_GUIDANCE_SCALE_def DEFAULT_INFERENCE_STEPS_def)
  have present: "\<forall>d. (aspect_ratio_key, d) \<in> set PREDEFINED_DIMENSIONS_MAP
          \<longrightarrow> lookup_dimensions aspect_ratio_key = d"
    using distinct_keys by (simp add: lookup_dimensions_def)
  have portrait: "lookup_dimensions ''9:16'' = \<lparr>width = 768, height = 1344\<rparr>"
    by (simp add: lookup_dimensions_def PREDEFINED_DIMENSIONS_MAP_def)
  have absent: "aspect_ratio_key \<notin> fst ` set PREDEFINED_DIMENSIONS_MAP
        \<longrightarrow> lookup_dimensions aspect_ratio_key = \<lparr>width = 1024, height = 1024\<rparr>"
  proof
    assume "aspect_ratio_key \<notin> fst ` set PREDEFINED_DIMENSIONS_MAP"
    then have "map_of PREDEFINED_DIMENSIONS_MAP aspect_ratio_key = None"
      by (simp add: map_of_eq_None_iff)
    then show "lookup_dimensions aspect_ratio_key = \<lparr>width = 1024, height = 1024\<rparr>"
      by (simp add: lookup_dimensions_def) (simp add: PREDEFINED_DIMENSIONS_MAP_def)
  qed
  obtain r w' where ci:
    "create_image E prompt_for_image aspect_ratio_key current_source_ip w = (r, w')"
    by fastforce
  from create_image_requests (1) [OF ci] ci
  have request: "\<exists>seed session_hash later.
         sent (snd (create_image E prompt_for_image aspect_ratio_key current_source_ip w)) =
           sent w @
           join_request E IMAGE_GENERATOR_API_BASE_URL IMAGE_GENERATOR_FN_INDEX
             (image_gen_payload prompt_for_image seed aspect_ratio_key)
             session_hash (Some IMAGE_GENERATOR_TRIGGER_ID) current_source_ip
           # later"
    by auto
  from payload present portrait absent request show ?thesis
    by blast
qed

theorem render_dimensions_witness:
  "''2:3'' \<notin> fst ` set PREDEFINED_DIMENSIONS_MAP
   \<and> lookup_dimensions ''2:3'' = \<lparr>width = 1024, height = 1024\<rparr>
   \<and> (''4:3'', \<lparr>width = 1152, height = 864\<rparr>) \<in> set PREDEFINED_DIMENSIONS_MAP
   \<and> lookup_dimensions ''4:3'' = \<lparr>width = 1152, height = 864\<rparr>
   \<and> image_gen_payload (JStr ''a red fox'') 7 ''9:16'' =
       [JStr ''a red fox'', JInt 7, JBool True, JInt 768, JInt 1344, JFloat (7 / 2), JInt 28]"
proof -
  have absent: "''2:3'' \<notin> fst ` set PREDEFINED_DIMENSIONS_MAP"
    by (simp add: PREDEFINED_DIMENSIONS_MAP_def)
  have present: "(''4:3'', \<lparr>width = 1152, height = 864\<rparr>) \<in> set PREDEFINED_DIMENSIONS_MAP"
    by (simp add: PREDEFINED_DIMENSIONS_MAP_def)
  note a = render_dimensions [where prompt_for_image = "JStr ''a red fox''" and seed = 7
      and aspect_ratio_key = "''2:3''"]
  note b = render_dimensions [where prompt_for_image = "JStr ''a red fox''" and seed = 7
      and aspect_ratio_key = "''4:3''"]
  note c = render_dimensions [where prompt_for_image = "JStr ''a red fox''" and seed = 7
      and aspect_ratio_key = "''9:16''"]
  from a absent have "lookup_dimensions ''2:3'' = \<lparr>width = 1024, height = 1024\<rparr>" by blast
  moreover from b present have "lookup_dimensions ''4:3'' = \<lparr>width = 1152, height = 864\<rparr>" by blast
  moreover from c have "image_gen_payload (JStr ''a red fox'') 7 ''9:16'' =
       [JStr ''a red fox'', JInt 7, JBool True, JInt 768, JInt 1344, JFloat (7 / 2), JInt 28]"
    by simp
  ultimately show ?thesis using absent present by blast
qed

section \<open>Session tokens\<close>

lemma length_ALPHABET: "length ALPHABET = 36"
  by (simp add: ALPHABET_def)

lemma attempt_after_translation:
  assumes g: "generate_session_hash E (w\<lparr>attempts := attempts w @ [(ip, rc)]\<rparr>) = (tok, w1)"
    and c: "call_gradio_api_with_ipv6 E TRANSLATOR_API_BASE_URL TRANSLATOR_FN_INDEX
              (JStr p # TRANSLATOR_OTHER_PARAMS) tok None ip w1 = (Inr ev, w2)"
    and po: "poll_gradio_sse_status E TRANSLATOR_API_BASE_URL tok ev ''Translator'' ip 300 w2
              = (Inr translated_prompt_data, w3)"
    and t: "translated_prompt translated_prompt_data = Inr prompt"
  shows "attempt E p k ip rc w = create_image E prompt k ip w3"
    and "tok = fst (generate_session_hash E w)"
    and "rng w3 = rng w + 26"
    and "\<exists>n. sent w3 = sent w @
           join_request E TRANSLATOR_API_BASE_URL TRANSLATOR_FN_INDEX
             (JStr p # TRANSLATOR_OTHER_PARAMS) tok None ip
           # replicate n (data_request E TRANSLATOR_API_BASE_URL tok ip)"
proof -
  show "attempt E p k ip rc w = create_image E prompt k ip w3"
    using g c po t by (simp add: attempt_def Let_def)
  from g have w1: "w1 = (w\<lparr>attempts := attempts w @ [(ip, rc)]\<rparr>)\<lparr>rng := rng w + 26\<rparr>"
    and tok: "tok = fst (generate_session_hash E (w\<lparr>attempts := attempts w @ [(ip, rc)]\<rparr>))"
    by (auto simp: generate_session_hash_def random_choices_def)
  from tok show "tok = fst (generate_session_hash E w)"
    by (simp add: session_hash_rng [of "w\<lparr>attempts := attempts w @ [(ip, rc)]\<rparr>" w])
  note f2 = call_frame [OF c]
  from poll_loop_frame [OF po [unfolded poll_gradio_sse_status_def]]
  obtain n where n: "sent w3 = sent w2 @ replicate n (data_request E TRANSLATOR_API_BASE_URL tok ip)"
    and r3: "rng w3 = rng w2"
    by blast
  from r3 f2 w1 show "rng w3 = rng w + 26" by simp
  from n f2 w1 have "sent w3 = sent w @
           join_request E TRANSLATOR_API_BASE_URL TRANSLATOR_FN_INDEX
             (JStr p # TRANSLATOR_OTHER_PARAMS) tok None ip
           # replicate n (data_request E TRANSLATOR_API_BASE_URL tok ip)"
    by simp
  then show "\<exists>n. sent w3 = sent w @
           join_request E TRANSLATOR_API_BASE_URL TRANSLATOR_FN_INDEX
             (JStr p # TRANSLATOR_OTHER_PARAMS) tok None ip
           # replicate n (data_request E TRANSLATOR_API_BASE_URL tok ip)" ..
qed

text \<open>
  Claim C10. A session token has 26 characters, each from the 36 lower-case letters and
  digits of \<open>ALPHABET\<close>, one per random draw. In an attempt the translate submission and
  its polls carry the token made of the next 26 draws. The render stage always sends its
  submission, and sends it, and its polls, with a token of its own, made of the 26 draws
  that follow the draw for the seed. Whenever the translation of an attempt succeeds, the
  attempt sends that render submission, so its requests carry two tokens, generated by two
  calls from disjoint draws.
\<close>

theorem session_tokens:
  "length (fst (generate_session_hash E w)) = 26
   \<and> set (fst (generate_session_hash E w)) \<subseteq> set ALPHABET
   \<and> fst (generate_session_hash E w) =
       map (\<lambda>i. ALPHABET ! (draws E (rng w + i) mod 36)) [0..<26]
   \<and> (\<exists>n tail.
         sent (snd (attempt E persian_prompt aspect_ratio_key current_source_ip retry_count w)) =
           sent w @
           join_request E TRANSLATOR_API_BASE_URL TRANSLATOR_FN_INDEX
             (JStr persian_prompt # TRANSLATOR_OTHER_PARAMS)
             (fst (generate_session_hash E w)) None current_source_ip
           # replicate n (data_request E TRANSLATOR_API_BASE_URL
               (fst (generate_session_hash E w)) current_source_ip)
           @ tail
         \<and> (tail = [] \<or>
             (\<exists>prompt_for_image seed m. tail =
                join_request E IMAGE_GENERATOR_API_BASE_URL IMAGE_GENERATOR_FN_INDEX
                  (image_gen_payload prompt_for_image seed aspect_ratio_key)
                  (fst (generate_session_hash E (w\<lparr>rng := rng w + 27\<rparr>)))
                  (Some IMAGE_GENERATOR_TRIGGER_ID) current_source_ip
                # replicate m (data_request E IMAGE_GENERATOR_API_BASE_URL
                    (fst (generate_session_hash E (w\<lparr>rng := rng w + 27\<rparr>)))
                    current_source_ip))))
   \<and> (\<exists>seed m.
         sent (snd (create_image E prompt_for_image aspect_ratio_key current_source_ip w)) =
           sent w @
           join_request E IMAGE_GENERATOR_API_BASE_URL IMAGE_GENERATOR_FN_INDEX
             (image_gen_payload prompt_for_image seed aspect_ratio_key)
             (map (\<lambda>i. ALPHABET ! (draws E (rng w + 1 + i) mod 36)) [0..<26])
             (Some IMAGE_GENERATOR_TRIGGER_ID) current_source_ip
           # replicate m (data_request E IMAGE_GENERATOR_API_BASE_URL
               (map (\<lambda>i. ALPHABET ! (draws E (rng w + 1 + i) mod 36)) [0..<26])
               current_source_ip))
   \<and> (generate_session_hash E
          (w\<lparr>attempts := attempts w @ [(current_source_ip, retry_count)]\<rparr>)
         = (translator_session_hash, w1)
       \<and> call_gradio_api_with_ipv6 E TRANSLATOR_API_BASE_URL TRANSLATOR_FN_INDEX
            (JStr persian_prompt # TRANSLATOR_OTHER_PARAMS) translator_session_hash None
            current_source_ip w1
         = (Inr translator_event_id, w2)
       \<and> poll_gradio_sse_status E TRANSLATOR_API_BASE_URL translator_session_hash
            translator_event_id ''Translator'' current_source_ip 300 w2
         = (Inr translated_prompt_data, w3)
       \<and> translated_prompt translated_prompt_data = Inr translated
       \<longrightarrow>
         translator_session_hash =
           map (\<lambda>i. ALPHABET ! (draws E (rng w + i) mod 36)) [0..<26]
         \<and> (\<exists>n seed m.
               sent (snd (attempt E persian_prompt aspect_ratio_key current_source_ip
                            retry_count w)) =
                 sent w @
                 join_request E TRANSLATOR_API_BASE_URL TRANSLATOR_FN_INDEX
                   (JStr persian_prompt # TRANSLATOR_OTHER_PARAMS)
                   translator_session_hash None current_source_ip
                 # replicate n (data_request E TRANSLATOR_API_BASE_URL
                     translator_session_hash current_source_ip)
                 @ join_request E IMAGE_GENERATOR_API_BASE_URL IMAGE_GENERATOR_FN_INDEX
                     (image_gen_payload translated seed aspect_ratio_key)
                     (map (\<lambda>i. ALPHABET ! (draws E (rng w + 27 + i) mod 36)) [0..<26])
                     (Some IMAGE_GENERATOR_TRIGGER_ID) current_source_ip
                 # replicate m (data_request E IMAGE_GENERATOR_API_BASE_URL
                     (map (\<lambda>i. ALPHABET ! (draws E (rng w + 27 + i) mod 36)) [0..<26])
                     current_source_ip)))"
proof -
  have token: "fst (generate_session_hash E v) =
       map (\<lambda>i. ALPHABET ! (draws E (rng v + i) mod 36)) [0..<26]" for v
    by (simp add: generate_session_hash_def random_choices_def length_ALPHABET)
  have len: "length (fst (generate_session_hash E w)) = 26"
    unfolding token by simp
  have "ALPHABET ! (draws E (rng w + i) mod 36) \<in> set ALPHABET" for i
    by (rule nth_mem) (simp add: length_ALPHABET)
  then have chars: "set (fst (generate_session_hash E w)) \<subseteq> set ALPHABET"
    unfolding token by auto
  obtain r w' where a:
    "attempt E persian_prompt aspect_ratio_key current_source_ip retry_count w = (r, w')"
    by fastforce
  from attempt_requests (1) [OF a] a
  have trace: "\<exists>n tail.
         sent (snd (attempt E persian_prompt aspect_ratio_key current_source_ip retry_count w)) =
           sent w @
           join_request E TRANSLATOR_API_BASE_URL TRANSLATOR_FN_INDEX
             (JStr persian_prompt # TRANSLATOR_OTHER_PARAMS)
             (fst (generate_session_hash E w)) None current_source_ip
           # replicate n (data_request E TRANSLATOR_API_BASE_URL
               (fst (generate_session_hash E w)) current_source_ip)
           @ tail
         \<and> (tail = [] \<or>
             (\<exists>prompt_for_image seed m. tail =
                join_request E IMAGE_GENERATOR_API_BASE_URL IMAGE_GENERATOR_FN_INDEX
                  (image_gen_payload prompt_for_image seed aspect_ratio_key)
                  (fst (generate_session_hash E (w\<lparr>rng := rng w + 27\<rparr>)))
                  (Some IMAGE_GENERATOR_TRIGGER_ID) current_source_ip
                # replicate m (data_request E IMAGE_GENERATOR_API_BASE_URL
                    (fst (generate_session_hash E (w\<lparr>rng := rng w + 27\<rparr>)))
                    current_source_ip)))"
    by (simp only: snd_conv) blast
  have render: "\<exists>seed m.
         sent (snd (create_image E prompt v_key ip v)) =
           sent v @
           join_request E IMAGE_GENERATOR_API_BASE_URL IMAGE_GENERATOR_FN_INDEX
             (image_gen_payload prompt seed v_key)
             (map (\<lambda>i. ALPHABET ! (draws E (rng v + 1 + i) mod 36)) [0..<26])
             (Some IMAGE_GENERATOR_TRIGGER_ID) ip
           # replicate m (data_request E IMAGE_GENERATOR_API_BASE_URL
               (map (\<lambda>i. ALPHABET ! (draws E (rng v + 1 + i) mod 36)) [0..<26]) ip)"
    for prompt v_key ip v
  proof -
    obtain r' v' where ci: "create_image E prompt v_key ip v = (r', v')"
      by fastforce
    have "fst (generate_session_hash E (v\<lparr>rng := rng v + 1\<rparr>)) =
        map (\<lambda>i. ALPHABET ! (draws E (rng v + 1 + i) mod 36)) [0..<26]"
      using token [of "v\<lparr>rng := rng v + 1\<rparr>"] by simp
    with create_image_requests (1) [OF ci] ci show ?thesis
      by (simp only: snd_conv) blast
  qed
  have staged: "translator_session_hash =
           map (\<lambda>i. ALPHABET ! (draws E (rng w + i) mod 36)) [0..<26]
         \<and> (\<exists>n seed m.
               sent (snd (attempt E persian_prompt aspect_ratio_key current_source_ip
                            retry_count w)) =
                 sent w @
                 join_request E TRANSLATOR_API_BASE_URL TRANSLATOR_FN_INDEX
                   (JStr persian_prompt # TRANSLATOR_OTHER_PARAMS)
                   translator_session_hash None current_source_ip
                 # replicate n (data_request E TRANSLATOR_API_BASE_URL
                     translator_session_hash current_source_ip)
                 @ join_request E IMAGE_GENERATOR_API_BASE_URL IMAGE_GENERATOR_FN_INDEX
                     (image_gen_payload translated seed aspect_ratio_key)
                     (map (\<lambda>i. ALPHABET ! (draws E (rng w + 27 + i) mod 36)) [0..<26])
                     (Some IMAGE_GENERATOR_TRIGGER_ID) current_source_ip
                 # replicate m (data_request E IMAGE_GENERATOR_API_BASE_URL
                     (map (\<lambda>i. ALPHABET ! (draws E (rng w + 27 + i) mod 36)) [0..<26])
                     current_source_ip))"
    if g: "generate_session_hash E
          (w\<lparr>attempts := attempts w @ [(current_source_ip, retry_count)]\<rparr>)
         = (translator_session_hash, w1)"
      and c: "call_gradio_api_with_ipv6 E TRANSLATOR_API_BASE_URL TRANSLATOR_FN_INDEX
            (JStr persian_prompt # TRANSLATOR_OTHER_PARAMS) translator_session_hash None
            current_source_ip w1
         = (Inr translator_event_id, w2)"
      and po: "poll_gradio_sse_status E TRANSLATOR_API_BASE_URL translator_session_hash
            translator_event_id ''Translator'' current_source_ip 300 w2
         = (Inr translated_prompt_data, w3)"
      and t: "translated_prompt translated_prompt_data = Inr translated"
  proof -
    note after = attempt_after_translation [OF g c po t]
    from after(2) have first: "translator_session_hash =
           map (\<lambda>i. ALPHABET ! (draws E (rng w + i) mod 36)) [0..<26]"
      by (simp add: token)
    from after(4) obtain n where n: "sent w3 = sent w @
           join_request E TRANSLATOR_API_BASE_URL TRANSLATOR_FN_INDEX
             (JStr persian_prompt # TRANSLATOR_OTHER_PARAMS) translator_session_hash None
             current_source_ip
           # replicate n (data_request E TRANSLATOR_API_BASE_URL translator_session_hash
               current_source_ip)"
      by blast
    from render [of translated aspect_ratio_key current_source_ip w3]
    obtain seed m where "sent (snd (create_image E translated aspect_ratio_key
          current_source_ip w3)) =
           sent w3 @
           join_request E IMAGE_GENERATOR_API_BASE_URL IMAGE_GENERATOR_FN_INDEX
             (image_gen_payload translated seed aspect_ratio_key)
             (map (\<lambda>i. ALPHABET ! (draws E (rng w3 + 1 + i) mod 36)) [0..<26])
             (Some IMAGE_GENERATOR_TRIGGER_ID) current_source_ip
           # replicate m (data_request E IMAGE_GENERATOR_API_BASE_URL
               (map (\<lambda>i. ALPHABET ! (draws E (rng w3 + 1 + i) mod 36)) [0..<26])
               current_source_ip)"
      by blast
    with after(1) after(3) n
    have "sent (snd (attempt E persian_prompt aspect_ratio_key current_source_ip
                            retry_count w)) =
                 sent w @
                 join_request E TRANSLATOR_API_BASE_URL TRANSLATOR_FN_INDEX
                   (JStr persian_prompt # TRANSLATOR_OTHER_PARAMS)
                   translator_session_hash None current_source_ip
                 # replicate n (data_request E TRANSLATOR_API_BASE_URL
                     translator_session_hash current_source_ip)
                 @ join_request E IMAGE_GENERATOR_API_BASE_URL IMAGE_GENERATOR_FN_INDEX
                     (image_gen_payload translated seed aspect_ratio_key)
                     (map (\<lambda>i. ALPHABET ! (draws E (rng w + 27 + i) mod 36)) [0..<26])
                     (Some IMAGE_GENERATOR_TRIGGER_ID) current_source_ip
                 # replicate m (data_request E IMAGE_GENERATOR_API_BASE_URL
                     (map (\<lambda>i. ALPHABET ! (draws E (rng w + 27 + i) mod 36)) [0..<26])
                     current_source_ip)"
      by (simp add: ac_simps)
    with first show ?thesis by blast
  qed
  from len chars token [of w] trace render [of prompt_for_image aspect_ratio_key
      current_source_ip w] staged
  show ?thesis by blast
qed

theorem session_tokens_witness:
  "fst (generate_session_hash unreachable idle) = ''abcdefghijklmnopqrstuvwxyz''
   \<and> fst (generate_session_hash unreachable (idle\<lparr>rng := rng idle + 27\<rparr>))
     = ''123456789abcdefghijklmnopq''
   \<and> length ''123456789abcdefghijklmnopq'' = 26
   \<and> (\<exists>n seed m.
         sent (snd (attempt translated_then_unreachable ''gorbe'' ''9:16'' None 0 idle)) =
           join_request translated_then_unreachable TRANSLATOR_API_BASE_URL TRANSLATOR_FN_INDEX
             (JStr ''gorbe'' # TRANSLATOR_OTHER_PARAMS) ''abcdefghijklmnopqrstuvwxyz'' None None
           # replicate n (data_request translated_then_unreachable TRANSLATOR_API_BASE_URL
               ''abcdefghijklmnopqrstuvwxyz'' None)
           @ join_request translated_then_unreachable IMAGE_GENERATOR_API_BASE_URL
               IMAGE_GENERATOR_FN_INDEX
               (image_gen_payload (JStr ''a red fox'') seed ''9:16'')
               ''123456789abcdefghijklmnopq'' (Some IMAGE_GENERATOR_TRIGGER_ID) None
           # replicate m (data_request translated_then_unreachable
               IMAGE_GENERATOR_API_BASE_URL ''123456789abcdefghijklmnopq'' None))"
proof -
  let ?E = "translated_then_unreachable"
  let ?tok = "''abcdefghijklmnopqrstuvwxyz''"
  let ?w0 = "idle\<lparr>attempts := attempts idle @ [(None, 0)]\<rparr>"
  let ?w1 = "snd (generate_session_hash ?E ?w0)"
  let ?w2 = "snd (call_gradio_api_with_ipv6 ?E TRANSLATOR_API_BASE_URL TRANSLATOR_FN_INDEX
      (JStr ''gorbe'' # TRANSLATOR_OTHER_PARAMS) ?tok None None ?w1)"
  let ?w3 = "snd (poll_gradio_sse_status ?E TRANSLATOR_API_BASE_URL ?tok (JStr ''e1'')
      ''Translator'' None 300 ?w2)"
  have upt: "[0..<26] = [0, 1, 2, 3, 4, 5, 6, 7, 8, 9, 10, 11, 12, 13, 14, 15, 16, 17, 18, 19,
      20, 21, 22, 23, 24, 25 :: nat]"
    by code_simp
  have draws: "draws ?E = (\<lambda>n. n)"
    by (simp add: translated_then_unreachable_def)
  from session_tokens [of unreachable idle]
  have "fst (generate_session_hash unreachable idle) =
      map (\<lambda>i. ALPHABET ! (draws unreachable (rng idle + i) mod 36)) [0..<26]"
    by blast
  then have first: "fst (generate_session_hash unreachable idle) = ?tok"
    by (simp add: upt ALPHABET_def)
  from session_tokens [of unreachable "idle\<lparr>rng := rng idle + 27\<rparr>"]
  have "fst (generate_session_hash unreachable (idle\<lparr>rng := rng idle + 27\<rparr>)) =
      map (\<lambda>i. ALPHABET ! (draws unreachable (rng (idle\<lparr>rng := rng idle + 27\<rparr>) + i) mod 36))
        [0..<26]"
    by blast
  then have second: "fst (generate_session_hash unreachable (idle\<lparr>rng := rng idle + 27\<rparr>))
      = ''123456789abcdefghijklmnopq''"
    by (simp add: upt ALPHABET_def)
  have "fst (generate_session_hash ?E ?w0) = ?tok"
    by code_simp
  then have g: "generate_session_hash ?E ?w0 = (?tok, ?w1)"
    by (metis prod.collapse)
  have "fst (call_gradio_api_with_ipv6 ?E TRANSLATOR_API_BASE_URL TRANSLATOR_FN_INDEX
      (JStr ''gorbe'' # TRANSLATOR_OTHER_PARAMS) ?tok None None ?w1) = Inr (JStr ''e1'')"
    by code_simp
  then have c: "call_gradio_api_with_ipv6 ?E TRANSLATOR_API_BASE_URL TRANSLATOR_FN_INDEX
      (JStr ''gorbe'' # TRANSLATOR_OTHER_PARAMS) ?tok None None ?w1 = (Inr (JStr ''e1''), ?w2)"
    by (metis prod.collapse)
  have "fst (poll_gradio_sse_status ?E TRANSLATOR_API_BASE_URL ?tok (JStr ''e1'')
      ''Translator'' None 300 ?w2) = Inr (JArr [JStr ''a red fox''])"
    by code_simp
  then have po: "poll_gradio_sse_status ?E TRANSLATOR_API_BASE_URL ?tok (JStr ''e1'')
      ''Translator'' None 300 ?w2 = (Inr (JArr [JStr ''a red fox'']), ?w3)"
    by (metis prod.collapse)
  have t: "translated_prompt (JArr [JStr ''a red fox'']) = Inr (JStr ''a red fox'')"
    by code_simp
  have render_token: "map (\<lambda>i. ALPHABET ! (draws ?E (rng idle + 27 + i) mod 36)) [0..<26]
      = ''123456789abcdefghijklmnopq''"
    by (simp add: draws upt ALPHABET_def)
  from session_tokens [of ?E idle "''gorbe''" "''9:16''" None 0 _ ?tok ?w1 "JStr ''e1''" ?w2
      "JArr [JStr ''a red fox'']" ?w3 "JStr ''a red fox''"] g c po t
  have "\<exists>n seed m.
         sent (snd (attempt ?E ''gorbe'' ''9:16'' None 0 idle)) =
           sent idle @
           join_request ?E TRANSLATOR_API_BASE_URL TRANSLATOR_FN_INDEX
             (JStr ''gorbe'' # TRANSLATOR_OTHER_PARAMS) ?tok None None
           # replicate n (data_request ?E TRANSLATOR_API_BASE_URL ?tok None)
           @ join_request ?E IMAGE_GENERATOR_API_BASE_URL IMAGE_GENERATOR_FN_INDEX
               (image_gen_payload (JStr ''a red fox'') seed ''9:16'')
               (map (\<lambda>i. ALPHABET ! (draws ?E (rng idle + 27 + i) mod 36)) [0..<26])
               (Some IMAGE_GENERATOR_TRIGGER_ID) None
           # replicate m (data_request ?E IMAGE_GENERATOR_API_BASE_URL
               (map (\<lambda>i. ALPHABET ! (draws ?E (rng idle + 27 + i) mod 36)) [0..<26]) None)"
    by blast
  then have third: "\<exists>n seed m.
         sent (snd (attempt ?E ''gorbe'' ''9:16'' None 0 idle)) =
           join_request ?E TRANSLATOR_API_BASE_URL TRANSLATOR_FN_INDEX
             (JStr ''gorbe'' # TRANSLATOR_OTHER_PARAMS) ?tok None None
           # replicate n (data_request ?E TRANSLATOR_API_BASE_URL ?tok None)
           @ join_request ?E IMAGE_GENERATOR_API_BASE_URL IMAGE_GENERATOR_FN_INDEX
               (image_gen_payload (JStr ''a red fox'') seed ''9:16'')
               ''123456789abcdefghijklmnopq'' (Some IMAGE_GENERATOR_TRIGGER_ID) None
           # replicate m (data_request ?E IMAGE_GENERATOR_API_BASE_URL
               ''123456789abcdefghijklmnopq'' None)"
    unfolding render_token by simp
  from first second third show ?thesis by simp
qed

section \<open>Records that do not decode\<close>

lemma collect_events_decoded:
  "collect_events E events processed_events =
     processed_events @
     List.map_filter
       (\<lambda>event_str. if startswith event_str ''data:''
                     then json_loads E (py_strip (drop (length ''data:'') event_str)) else None)
       events"
  by (induction events arbitrary: processed_events)
     (auto simp: List.map_filter_simps split: option.splits)

lemma map_filter_skipped:
  "\<forall>x \<in> set xs. f x = None \<Longrightarrow> List.map_filter f (xs @ ys) = List.map_filter f ys"
  by (induction xs) (auto simp: List.map_filter_simps)

lemma scan_events_completed:
  assumes "py_eq (dict_get d ''event_id'') event_id"
    and "py_eq (dict_get d ''msg'') (JStr ''process_completed'')"
    and "truthy (dict_get d ''success'')"
    and "dict_get d ''output'' = JObj out"
    and "truthy (dict_get out ''data'')"
  shows "scan_events event_id service_name (JObj d # later) = Inr (Some (dict_get out ''data''))"
proof -
  from assms(5) have "out \<noteq> []"
    by (auto simp: dict_get_def)
  with assms show ?thesis
    by (simp add: process_completed_def Let_def)
qed

text \<open>
  Claim C8. The records of a response are decoded one by one, and one that \<open>json.loads\<close>
  rejects is left out without ending the pass. So when a response holds a well-formed record
  of the awaited job that reports a successful completion with output data, and every record
  before it either lacks the \<open>data:\<close> prefix or does not decode, the poll returns that
  record's output data after this one request, whatever follows the record.
\<close>

theorem malformed_records_skipped:
  "get_reply E (length (sent w)) = Answered body
   \<and> py_split_nl (py_strip body) = skipped @ completion # later
   \<and> (\<forall>event_str \<in> set skipped.
         startswith event_str ''data:'' \<longrightarrow> json_loads E (py_strip (drop (length ''data:'') event_str)) = None)
   \<and> startswith completion ''data:''
   \<and> json_loads E (py_strip (drop (length ''data:'') completion)) = Some (JObj d)
   \<and> py_eq (dict_get d ''event_id'') event_id
   \<and> py_eq (dict_get d ''msg'') (JStr ''process_completed'')
   \<and> truthy (dict_get d ''success'')
   \<and> dict_get d ''output'' = JObj out
   \<and> truthy (dict_get out ''data'')
   \<and> 0 < max_poll_time
   \<longrightarrow>
     (\<exists>others. collect_events E (py_split_nl (py_strip body)) [] = JObj d # others)
     \<and> poll_gradio_sse_status E base_url session_hash event_id service_name source_ip
          max_poll_time w
       = (Inr (dict_get out ''data''),
          w\<lparr>sent := sent w @ [data_request E base_url session_hash source_ip],
            now := now w + elapsed E (length (sent w))\<rparr>)"
proof (intro impI, elim conjE)
  assume reply: "get_reply E (length (sent w)) = Answered body"
    and lines: "py_split_nl (py_strip body) = skipped @ completion # later"
    and skipped: "\<forall>event_str \<in> set skipped.
         startswith event_str ''data:'' \<longrightarrow> json_loads E (py_strip (drop (length ''data:'') event_str)) = None"
    and prefixed: "startswith completion ''data:''"
    and decoded: "json_loads E (py_strip (drop (length ''data:'') completion)) = Some (JObj d)"
    and matching: "py_eq (dict_get d ''event_id'') event_id"
      "py_eq (dict_get d ''msg'') (JStr ''process_completed'')"
      "truthy (dict_get d ''success'')"
      "dict_get d ''output'' = JObj out"
      "truthy (dict_get out ''data'')"
    and budget: "0 < max_poll_time"
  let ?decode = "\<lambda>event_str. if startswith event_str ''data:''
                     then json_loads E (py_strip (drop (length ''data:'') event_str)) else None"
  from skipped have "\<forall>event_str \<in> set skipped. ?decode event_str = None"
    by simp
  then have "List.map_filter ?decode (skipped @ completion # later)
      = List.map_filter ?decode (completion # later)"
    by (rule map_filter_skipped)
  with prefixed decoded lines
  have events: "collect_events E (py_split_nl (py_strip body)) []
      = JObj d # List.map_filter ?decode later"
    by (simp add: collect_events_decoded List.map_filter_simps)
  have scan: "scan_events event_id service_name (JObj d # List.map_filter ?decode later)
      = Inr (Some (dict_get out ''data''))"
    using matching by (rule scan_events_completed)
  have cycle: "poll_cycle E base_url session_hash event_id service_name source_ip w
      = (Cycle_Return (dict_get out ''data''),
         w\<lparr>sent := sent w @ [data_request E base_url session_hash source_ip],
            now := now w + elapsed E (length (sent w))\<rparr>)"
    using reply events scan by (simp add: poll_cycle_def Let_def)
  have "poll_gradio_sse_status E base_url session_hash event_id service_name source_ip
          max_poll_time w
       = (Inr (dict_get out ''data''),
          w\<lparr>sent := sent w @ [data_request E base_url session_hash source_ip],
            now := now w + elapsed E (length (sent w))\<rparr>)"
    using budget cycle
    by (simp add: poll_gradio_sse_status_def poll_loop.simps [of _ _ _ _ _ _ _ _ w])
  with events show "(\<exists>others. collect_events E (py_split_nl (py_strip body)) [] = JObj d # others)
     \<and> poll_gradio_sse_status E base_url session_hash event_id service_name source_ip
          max_poll_time w
       = (Inr (dict_get out ''data''),
          w\<lparr>sent := sent w @ [data_request E base_url session_hash source_ip],
            now := now w + elapsed E (length (sent w))\<rparr>)"
    by blast
qed

theorem malformed_records_skipped_witness:
  "fst (poll_gradio_sse_status
         (stream_of (malformed_line @ [CHR 0x0A] @ completed_line))
         ''https://svc'' ''tok'' (JStr ''e1'') ''Translator'' None 300 idle)
     = Inr (JArr [JStr ''a red fox''])
   \<and> json_loads (stream_of (malformed_line @ [CHR 0x0A] @ completed_line))
         (py_strip (drop (length ''data:'') malformed_line)) = None"
proof -
  let ?body = "malformed_line @ [CHR 0x0A] @ completed_line"
  let ?E = "stream_of ?body"
  have reply: "get_reply ?E (length (sent idle)) = Answered ?body"
    by simp
  have lines: "py_split_nl (py_strip ?body) = [malformed_line] @ completed_line # []"
    by code_simp
  have bad: "sample_loads (py_strip (drop (length ''data:'') malformed_line)) = None"
    by code_simp
  have skipped: "\<forall>event_str \<in> set [malformed_line]. startswith event_str ''data:'' \<longrightarrow>
      json_loads ?E (py_strip (drop (length ''data:'') event_str)) = None"
    using bad by simp
  have prefixed: "startswith completed_line ''data:''"
    by code_simp
  have good: "sample_loads (py_strip (drop (length ''data:'') completed_line))
      = Some (JObj completed_record)"
    by code_simp
  have decoded: "json_loads ?E (py_strip (drop (length ''data:'') completed_line))
      = Some (JObj completed_record)"
    using good by simp
  have m1: "py_eq (dict_get completed_record ''event_id'') (JStr ''e1'')" by code_simp
  have m2: "py_eq (dict_get completed_record ''msg'') (JStr ''process_completed'')" by code_simp
  have m3: "truthy (dict_get completed_record ''success'')" by code_simp
  have m4: "dict_get completed_record ''output'' = JObj [(''data'', JArr [JStr ''a red fox''])]"
    by code_simp
  have m5: "truthy (dict_get [(''data'', JArr [JStr ''a red fox''])] ''data'')" by code_simp
  have m6: "dict_get [(''data'', JArr [JStr ''a red fox''])] ''data'' = JArr [JStr ''a red fox'']"
    by code_simp
  have budget: "0 < (300 :: nat)" by simp
  from malformed_records_skipped [of ?E idle ?body "[malformed_line]" completed_line "[]"
      completed_record "JStr ''e1''" "[(''data'', JArr [JStr ''a red fox''])]" 300
      "''https://svc''" "''tok''" "''Translator''" None]
    reply lines skipped prefixed decoded m1 m2 m3 m4 m5 budget
  have "poll_gradio_sse_status ?E ''https://svc'' ''tok'' (JStr ''e1'') ''Translator'' None 300 idle
      = (Inr (dict_get [(''data'', JArr [JStr ''a red fox''])] ''data''),
         idle\<lparr>sent := sent idle @ [data_request ?E ''https://svc'' ''tok'' None],
              now := now idle + elapsed ?E (length (sent idle))\<rparr>)"
    by blast
  then have "fst (poll_gradio_sse_status ?E ''https://svc'' ''tok'' (JStr ''e1'') ''Translator''
      None 300 idle) = Inr (JArr [JStr ''a red fox''])"
    by (simp add: m6)
  with bad show ?thesis by simp
qed

section \<open>Terminal failure records\<close>

text \<open>
  The \<open>raise\<close> statements of lines 186, 187 and 194 stand inside the \<open>try\<close> block of line
  156, whose last clause, \<open>except Exception\<close> (line 208), catches what they raise: the
  cycle ends with a pause of 5 and the loop goes on.
\<close>

lemma process_completed_raises:
  "process_completed service_name d = Inl e \<Longrightarrow> e \<noteq> Timeout \<and> (\<forall>t. e \<noteq> RequestException t)"
  by (auto simp: process_completed_def Let_def
      split: if_splits json.splits sum.splits option.splits bool.splits)

lemma scan_events_raises:
  "scan_events event_id service_name events = Inl e
   \<Longrightarrow> e \<noteq> Timeout \<and> (\<forall>t. e \<noteq> RequestException t)"
proof (induction events)
  case Nil
  then show ?case by simp
next
  case (Cons event_data events)
  then show ?case
    by (auto split: json.splits if_splits sum.splits dest: process_completed_raises)
qed

lemma raised_in_cycle_is_swallowed:
  assumes "get_reply E (length (sent w)) = Answered body"
    and "scan_events event_id service_name (collect_events E (py_split_nl (py_strip body)) [])
           = Inl e"
  shows "poll_cycle E base_url session_hash event_id service_name source_ip w
     = (Cycle_Continue,
        w\<lparr>sent := sent w @ [data_request E base_url session_hash source_ip],
          now := now w + elapsed E (length (sent w)) + 5\<rparr>)"
proof -
  from scan_events_raises [OF assms(2)]
  have "e \<noteq> Timeout" and "\<forall>t. e \<noteq> RequestException t" by simp_all
  with assms show ?thesis
    by (cases e) (simp_all add: poll_cycle_def Let_def)
qed

text \<open>
  Claim C2, evaluated. A \<open>queue_full\<close> record of the awaited job raises \<open>GPUQuotaError\<close>
  inside the cycle, and so does a completion without success whose error text matches the
  resource keywords; in both cases the cycle ends in \<open>Cycle_Continue\<close> instead of failing
  the call. When the response after a \<open>queue_full\<close> record holds a successful completion,
  the poll returns its data, after two requests.
\<close>

theorem terminal_failures_are_swallowed:
  "scan_events (JStr ''e1'') ''Translator''
      (collect_events (stream_of queue_full_line)
         (py_split_nl (py_strip queue_full_line)) [])
     = Inl (GPUQuotaError ''Queue for Translator is full.'')
   \<and> fst (poll_cycle (stream_of queue_full_line)
            ''https://svc'' ''tok'' (JStr ''e1'') ''Translator'' None idle)
     = Cycle_Continue
   \<and> scan_events (JStr ''e1'') ''Translator''
      (collect_events (stream_of failed_line)
         (py_split_nl (py_strip failed_line)) [])
     = Inl (GPUQuotaError
         ''Processing Translator failed with resource error: GPU quota exceeded'')
   \<and> fst (poll_cycle (stream_of failed_line)
            ''https://svc'' ''tok'' (JStr ''e1'') ''Translator'' None idle)
     = Cycle_Continue
   \<and> fst (poll_gradio_sse_status
            (queue_full_then_completed)
            ''https://svc'' ''tok'' (JStr ''e1'') ''Translator'' None 300 idle)
     = Inr (JArr [JStr ''a red fox''])
   \<and> length (sent (snd (poll_gradio_sse_status
            (queue_full_then_completed)
            ''https://svc'' ''tok'' (JStr ''e1'') ''Translator'' None 300 idle))) = 2"
proof -
  have a: "scan_events (JStr ''e1'') ''Translator''
      (collect_events (stream_of queue_full_line)
         (py_split_nl (py_strip queue_full_line)) [])
     = Inl (GPUQuotaError ''Queue for Translator is full.'')"
    by code_simp
  have b: "fst (poll_cycle (stream_of queue_full_line)
            ''https://svc'' ''tok'' (JStr ''e1'') ''Translator'' None idle)
     = Cycle_Continue"
    by code_simp
  have c: "scan_events (JStr ''e1'') ''Translator''
      (collect_events (stream_of failed_line)
         (py_split_nl (py_strip failed_line)) [])
     = Inl (GPUQuotaError
         ''Processing Translator failed with resource error: GPU quota exceeded'')"
    by code_simp
  have d: "fst (poll_cycle (stream_of failed_line)
            ''https://svc'' ''tok'' (JStr ''e1'') ''Translator'' None idle)
     = Cycle_Continue"
    by code_simp
  have e: "fst (poll_gradio_sse_status
            (queue_full_then_completed)
            ''https://svc'' ''tok'' (JStr ''e1'') ''Translator'' None 300 idle)
     = Inr (JArr [JStr ''a red fox''])"
    by code_simp
  have f: "length (sent (snd (poll_gradio_sse_status
            (queue_full_then_completed)
            ''https://svc'' ''tok'' (JStr ''e1'') ''Translator'' None 300 idle))) = 2"
    by code_simp
  from a b c d e f show ?thesis by blast
qed

section \<open>What a run leaves behind\<close>

lemma request_sources [simp]:
  "source_address (join_request E b f d sh t ip) = bound_source E ip"
  "source_address (data_request E b sh ip) = bound_source E ip"
  by (simp_all add: join_request_def data_request_def Let_def)

lemma attempt_trace:
  assumes "attempt E p k ip rc w = (r, w')"
  shows "\<exists>first later. sent w' = sent w @ first # later
           \<and> first = join_request E TRANSLATOR_API_BASE_URL TRANSLATOR_FN_INDEX
                 (JStr p # TRANSLATOR_OTHER_PARAMS) (fst (generate_session_hash E w)) None ip
           \<and> (\<forall>q \<in> set (first # later). source_address q = bound_source E ip)"
proof -
  from attempt_requests (1) [OF assms]
  obtain n tail where sent: "sent w' = sent w @
      join_request E TRANSLATOR_API_BASE_URL TRANSLATOR_FN_INDEX
        (JStr p # TRANSLATOR_OTHER_PARAMS) (fst (generate_session_hash E w)) None ip
      # replicate n (data_request E TRANSLATOR_API_BASE_URL
          (fst (generate_session_hash E w)) ip) @ tail"
    and tail: "tail = [] \<or>
      (\<exists>prompt m. tail =
         join_request E IMAGE_GENERATOR_API_BASE_URL IMAGE_GENERATOR_FN_INDEX
           (image_gen_payload prompt
              (fst (random_randint E 0 2147483647 (w\<lparr>rng := rng w + 26\<rparr>))) k)
           (fst (generate_session_hash E (w\<lparr>rng := rng w + 27\<rparr>)))
           (Some IMAGE_GENERATOR_TRIGGER_ID) ip
         # replicate m (data_request E IMAGE_GENERATOR_API_BASE_URL
             (fst (generate_session_hash E (w\<lparr>rng := rng w + 27\<rparr>))) ip))"
    by blast
  from tail have "\<forall>q \<in> set tail. source_address q = bound_source E ip"
    by auto
  then have "\<forall>q \<in> set (join_request E TRANSLATOR_API_BASE_URL TRANSLATOR_FN_INDEX
        (JStr p # TRANSLATOR_OTHER_PARAMS) (fst (generate_session_hash E w)) None ip
      # replicate n (data_request E TRANSLATOR_API_BASE_URL
          (fst (generate_session_hash E w)) ip) @ tail). source_address q = bound_source E ip"
    by auto
  with sent show ?thesis by blast
qed

lemma asyncio_sleep_frame:
  assumes "asyncio_sleep delay w = Inr w'"
  shows "sent w' = sent w" and "attempts w' = attempts w"
    and "tried_ips_in_this_run w' = tried_ips_in_this_run w"
  using assms by (auto simp: asyncio_sleep_def split: if_splits)

lemma asyncio_is_unbound: "asyncio_sleep delay w =
    Inl (NameError (''name '' @ [CHR 0x27] @ ''asyncio'' @ [CHR 0x27] @ '' is not defined''))"
  by (simp add: asyncio_sleep_def MODULE_GLOBALS_def)

lemma retry_loop_trace:
  "retry_loop E p k ip retry_counts w = (r, w') \<Longrightarrow>
     \<exists>n new_attempts new_requests.
       attempts w' = attempts w @ new_attempts
       \<and> map fst new_attempts = replicate n ip
       \<and> sent w' = sent w @ new_requests
       \<and> (\<forall>q \<in> set new_requests. source_address q = bound_source E ip)
       \<and> tried_ips_in_this_run w' = tried_ips_in_this_run w
       \<and> (retry_counts \<noteq> [] \<longrightarrow> 0 < n \<and> new_requests \<noteq> [])"
proof (induction retry_counts arbitrary: w)
  case Nil
  then have "w' = w" by simp
  then have "attempts w' = attempts w @ [] \<and> map fst ([] :: (string option \<times> nat) list) = replicate 0 ip
      \<and> sent w' = sent w @ [] \<and> (\<forall>q \<in> set ([] :: request list). source_address q = bound_source E ip)
      \<and> tried_ips_in_this_run w' = tried_ips_in_this_run w"
    by simp
  then show ?case by blast
next
  case (Cons retry_count later)
  obtain r1 w1 where a: "attempt E p k ip retry_count w = (r1, w1)"
    by fastforce
  from attempt_trace [OF a] obtain first rest where
    s1: "sent w1 = sent w @ first # rest"
    and q1: "\<forall>q \<in> set (first # rest). source_address q = bound_source E ip"
    by blast
  note a1 = attempt_requests (2) [OF a]
  note t1 = attempt_requests (3) [OF a]
  have stop: ?case if "w' = w1"
  proof -
    have "attempts w' = attempts w @ [(ip, retry_count)]"
      "map fst [(ip, retry_count)] = replicate 1 ip"
      "sent w' = sent w @ first # rest"
      "tried_ips_in_this_run w' = tried_ips_in_this_run w"
      using that a1 t1 s1 by simp_all
    with q1 show ?thesis
      by (intro exI [of _ 1] exI [of _ "[(ip, retry_count)]"] exI [of _ "first # rest"]) simp
  qed
  show ?case
  proof (cases r1)
    case (Inr result)
    with Cons.prems a have "w' = w1" by simp
    then show ?thesis by (rule stop)
  next
    case (Inl e)
    show ?thesis
    proof (cases "\<exists>message. e = GPUQuotaError message")
      case True
      with Cons.prems a Inl have "w' = w1" by auto
      then show ?thesis by (rule stop)
    next
      case False
      then have shape: "(case e of GPUQuotaError message \<Rightarrow> x | _ \<Rightarrow> y) = y" for x y :: "loop_end \<times> world"
        by (cases e) simp_all
      show ?thesis
      proof (cases "retry_count < max_retries_per_ip - 1")
        case no_more: False
        with Cons.prems a Inl False have "w' = w1"
          by (cases e) simp_all
        then show ?thesis by (rule stop)
      next
        case more: True
        show ?thesis
        proof (cases "asyncio_sleep 2 w1")
          case raised: (Inl x)
          with Cons.prems a Inl False more have "w' = w1"
            by (cases e) simp_all
          then show ?thesis by (rule stop)
        next
          case slept: (Inr w2)
          with Cons.prems a Inl False more
          have again: "retry_loop E p k ip later w2 = (r, w')"
            by (cases e) simp_all
          note f2 = asyncio_sleep_frame [OF slept]
          from Cons.IH [OF again] obtain n new_attempts new_requests where
            ih: "attempts w' = attempts w2 @ new_attempts"
              "map fst new_attempts = replicate n ip"
              "sent w' = sent w2 @ new_requests"
              "\<forall>q \<in> set new_requests. source_address q = bound_source E ip"
              "tried_ips_in_this_run w' = tried_ips_in_this_run w2"
            by blast
          have "attempts w' = attempts w @ ((ip, retry_count) # new_attempts)"
            "map fst ((ip, retry_count) # new_attempts) = replicate (Suc n) ip"
            "sent w' = sent w @ (first # rest @ new_requests)"
            "\<forall>q \<in> set (first # rest @ new_requests). source_address q = bound_source E ip"
            "tried_ips_in_this_run w' = tried_ips_in_this_run w"
            using ih f2 a1 t1 s1 q1 by auto
          then show ?thesis
            by (intro exI [of _ "Suc n"] exI [of _ "(ip, retry_count) # new_attempts"]
                exI [of _ "first # rest @ new_requests"]) simp
        qed
      qed
    qed
  qed
qed

lemma rotation_trace:
  "rotation E p k ips w = (r, w') \<Longrightarrow>
     \<exists>visited rest ns new_attempts new_requests.
       ips = visited @ rest
       \<and> tried_ips_in_this_run w' = tried_ips_in_this_run w @ visited
       \<and> attempts w' = attempts w @ new_attempts
       \<and> length ns = length visited \<and> (\<forall>n \<in> set ns. 0 < n)
       \<and> map fst new_attempts = concat (map2 replicate ns visited)
       \<and> sent w' = sent w @ new_requests
       \<and> (\<forall>q \<in> set new_requests. \<exists>ip \<in> set visited. source_address q = bound_source E ip)
       \<and> (ips \<noteq> [] \<longrightarrow> visited \<noteq> [] \<and> new_requests \<noteq> [])"
proof (induction ips arbitrary: w)
  case Nil
  then have "w' = w" by simp
  then show ?case
    by (intro exI [of _ "[]"]) simp
next
  case (Cons ip ips)
  define w0 where "w0 = w\<lparr>tried_ips_in_this_run := tried_ips_in_this_run w @ [ip]\<rparr>"
  obtain l w1 where loop: "retry_loop E p k ip [0..<max_retries_per_ip] w0 = (l, w1)"
    by fastforce
  have nonempty: "[0..<max_retries_per_ip] \<noteq> []"
    by (simp add: max_retries_per_ip_def)
  from retry_loop_trace [OF loop] nonempty
  obtain n new_attempts new_requests where
    t1: "attempts w1 = attempts w0 @ new_attempts"
      "map fst new_attempts = replicate n ip"
      "sent w1 = sent w0 @ new_requests"
      "\<forall>q \<in> set new_requests. source_address q = bound_source E ip"
      "tried_ips_in_this_run w1 = tried_ips_in_this_run w0"
      "0 < n" "new_requests \<noteq> []"
    by blast
  have stop: ?case if "w' = w1"
  proof -
    have "ip # ips = [ip] @ ips"
      "tried_ips_in_this_run w' = tried_ips_in_this_run w @ [ip]"
      "attempts w' = attempts w @ new_attempts"
      "length [n] = length [ip]" "\<forall>m \<in> set [n]. 0 < m"
      "map fst new_attempts = concat (map2 replicate [n] [ip])"
      "sent w' = sent w @ new_requests"
      "\<forall>q \<in> set new_requests. \<exists>a \<in> set [ip]. source_address q = bound_source E a"
      "[ip] \<noteq> [] \<and> new_requests \<noteq> []"
      using that t1 by (simp_all add: w0_def)
    then show ?thesis by blast
  qed
  show ?case
  proof (cases l)
    case (Returned result)
    with Cons.prems loop have "w' = w1" by (simp add: w0_def)
    then show ?thesis by (rule stop)
  next
    case (Raised e)
    with Cons.prems loop have "w' = w1" by (simp add: w0_def)
    then show ?thesis by (rule stop)
  next
    case Next_Address
    with Cons.prems loop have next_ip: "rotation E p k ips w1 = (r, w')"
      by (simp add: w0_def)
    from Cons.IH [OF next_ip]
    obtain visited rest ns more_attempts more_requests where
      ih: "ips = visited @ rest"
        "tried_ips_in_this_run w' = tried_ips_in_this_run w1 @ visited"
        "attempts w' = attempts w1 @ more_attempts"
        "length ns = length visited" "\<forall>m \<in> set ns. 0 < m"
        "map fst more_attempts = concat (map2 replicate ns visited)"
        "sent w' = sent w1 @ more_requests"
        "\<forall>q \<in> set more_requests. \<exists>a \<in> set visited. source_address q = bound_source E a"
      by blast
    have "ip # ips = (ip # visited) @ rest"
      "tried_ips_in_this_run w' = tried_ips_in_this_run w @ (ip # visited)"
      "attempts w' = attempts w @ (new_attempts @ more_attempts)"
      "length (n # ns) = length (ip # visited)" "\<forall>m \<in> set (n # ns). 0 < m"
      "map fst (new_attempts @ more_attempts) = concat (map2 replicate (n # ns) (ip # visited))"
      "sent w' = sent w @ (new_requests @ more_requests)"
      "\<forall>q \<in> set (new_requests @ more_requests).
          \<exists>a \<in> set (ip # visited). source_address q = bound_source E a"
      "ip # visited \<noteq> [] \<and> new_requests @ more_requests \<noteq> []"
      using ih t1 by (auto simp: w0_def)
    then show ?thesis by blast
  qed
qed

lemma retries_start_at_zero: "[0..<max_retries_per_ip] = 0 # [1..<max_retries_per_ip]"
  by (simp add: max_retries_per_ip_def upt_conv_Cons)

section \<open>A failure that is not a resource error\<close>

text \<open>
  The handler of line 311 reaches line 314 on the first failure of an address, since
  \<open>retry_count = 0 < max_retries_per_ip - 1\<close>. The module never imports \<open>asyncio\<close>, so
  the call raises \<open>NameError\<close> inside the \<open>except\<close> clause, and the exception leaves
  \<open>start_full_process_with_ipv6_rotation\<close>.
\<close>

lemma other_failure_raises_NameError:
  assumes "attempt E p k ip 0 w = (Inl e, w')" and "\<forall>message. e \<noteq> GPUQuotaError message"
  shows "retry_loop E p k ip [0..<max_retries_per_ip] w =
     (Raised (NameError (''name '' @ [CHR 0x27] @ ''asyncio'' @ [CHR 0x27] @ '' is not defined'')),
      w')"
  using assms
  by (cases e)
     (simp_all add: retries_start_at_zero asyncio_is_unbound, simp_all add: max_retries_per_ip_def)

text \<open>
  Claim C1, evaluated. With two addresses loaded, an attempt whose submission fails with a
  connection reset (a \<open>ConnectionError\<close>), or is answered with an error the keywords do not
  match (a \<open>ValueError\<close>), ends the run with \<open>NameError\<close>: one attempt was made, on the
  first address; no wait took place (the clock shows the one exchange); the second address
  was never tried.
\<close>

theorem first_failure_aborts_the_run:
  "fst (start_full_process_with_ipv6_rotation
          (reset_everywhere [''2001:db8::1'', ''2001:db8::2''])
          ''gorbe'' ''9:16'' idle)
     = Inl (NameError (''name '' @ [CHR 0x27] @ ''asyncio'' @ [CHR 0x27] @ '' is not defined''))
   \<and> attempts (snd (start_full_process_with_ipv6_rotation
          (reset_everywhere [''2001:db8::1'', ''2001:db8::2''])
          ''gorbe'' ''9:16'' idle))
     = [(Some ''2001:db8::1'', 0)]
   \<and> now (snd (start_full_process_with_ipv6_rotation
          (reset_everywhere [''2001:db8::1'', ''2001:db8::2''])
          ''gorbe'' ''9:16'' idle))
     = 1
   \<and> fst (start_full_process_with_ipv6_rotation
          (rejected_everywhere [''2001:db8::1'', ''2001:db8::2''])
          ''gorbe'' ''9:16'' idle)
     = Inl (NameError (''name '' @ [CHR 0x27] @ ''asyncio'' @ [CHR 0x27] @ '' is not defined''))
   \<and> attempts (snd (start_full_process_with_ipv6_rotation
          (rejected_everywhere [''2001:db8::1'', ''2001:db8::2''])
          ''gorbe'' ''9:16'' idle))
     = [(Some ''2001:db8::1'', 0)]"
proof -
  let ?transport = "reset_everywhere [''2001:db8::1'', ''2001:db8::2'']"
  let ?logical = "rejected_everywhere [''2001:db8::1'', ''2001:db8::2'']"
  have a: "fst (start_full_process_with_ipv6_rotation ?transport ''gorbe'' ''9:16'' idle)
     = Inl (NameError (''name '' @ [CHR 0x27] @ ''asyncio'' @ [CHR 0x27] @ '' is not defined''))"
    by code_simp
  have b: "attempts (snd (start_full_process_with_ipv6_rotation ?transport ''gorbe'' ''9:16'' idle))
     = [(Some ''2001:db8::1'', 0)]"
    by code_simp
  have c: "now (snd (start_full_process_with_ipv6_rotation ?transport ''gorbe'' ''9:16'' idle)) = 1"
    by code_simp
  have d: "fst (start_full_process_with_ipv6_rotation ?logical ''gorbe'' ''9:16'' idle)
     = Inl (NameError (''name '' @ [CHR 0x27] @ ''asyncio'' @ [CHR 0x27] @ '' is not defined''))"
    by code_simp
  have e: "attempts (snd (start_full_process_with_ipv6_rotation ?logical ''gorbe'' ''9:16'' idle))
     = [(Some ''2001:db8::1'', 0)]"
    by code_simp
  from a b c d e show ?thesis by blast
qed

section \<open>A resource error moves on to the next address\<close>

text \<open>
  Claim C3. When an attempt on an address fails with \<open>GPUQuotaError\<close>, the retry loop for
  that address ends there, whatever retries were left: that attempt is the last entry of
  the attempt log, and nothing else has changed. When it is the first attempt on the address,
  the run goes on with the remaining addresses from the state that attempt left.
\<close>

theorem resource_exhaustion_rotates:
  "(attempt E p k ip retry_count w = (Inl (GPUQuotaError message), w')
      \<longrightarrow> retry_loop E p k ip (retry_count # later) w = (Next_Address, w')
          \<and> attempts w' = attempts w @ [(ip, retry_count)])
   \<and> (attempt E p k ip 0 (w\<lparr>tried_ips_in_this_run := tried_ips_in_this_run w @ [ip]\<rparr>)
        = (Inl (GPUQuotaError message), w')
      \<longrightarrow> rotation E p k (ip # available_ips) w = rotation E p k available_ips w')"
proof (intro conjI impI)
  assume a: "attempt E p k ip retry_count w = (Inl (GPUQuotaError message), w')"
  then show "retry_loop E p k ip (retry_count # later) w = (Next_Address, w')"
    by simp
  from a show "attempts w' = attempts w @ [(ip, retry_count)]"
    by (rule attempt_requests (2))
next
  assume "attempt E p k ip 0 (w\<lparr>tried_ips_in_this_run := tried_ips_in_this_run w @ [ip]\<rparr>)
        = (Inl (GPUQuotaError message), w')"
  then show "rotation E p k (ip # available_ips) w = rotation E p k available_ips w'"
    by (simp add: retries_start_at_zero)
qed

theorem resource_exhaustion_rotates_witness:
  "fst (retry_loop
          (quota_everywhere [''2001:db8::1'', ''2001:db8::2''])
          ''gorbe'' ''9:16'' (Some ''2001:db8::1'') [0, 1] idle)
     = Next_Address
   \<and> attempts (snd (retry_loop
          (quota_everywhere [''2001:db8::1'', ''2001:db8::2''])
          ''gorbe'' ''9:16'' (Some ''2001:db8::1'') [0, 1] idle))
     = [(Some ''2001:db8::1'', 0)]
   \<and> attempts (snd (start_full_process_with_ipv6_rotation
          (quota_everywhere [''2001:db8::1'', ''2001:db8::2''])
          ''gorbe'' ''9:16'' idle))
     = [(Some ''2001:db8::1'', 0), (Some ''2001:db8::2'', 0)]"
proof -
  let ?E = "quota_everywhere [''2001:db8::1'', ''2001:db8::2'']"
  let ?ip = "Some ''2001:db8::1''"
  let ?w' = "snd (attempt ?E ''gorbe'' ''9:16'' ?ip 0 idle)"
  have "fst (attempt ?E ''gorbe'' ''9:16'' ?ip 0 idle)
      = Inl (GPUQuotaError ''Server (GPU) resource limit encountered: GPU quota exceeded'')"
    by code_simp
  then have failed: "attempt ?E ''gorbe'' ''9:16'' ?ip 0 idle
      = (Inl (GPUQuotaError ''Server (GPU) resource limit encountered: GPU quota exceeded''), ?w')"
    by (metis prod.collapse)
  from resource_exhaustion_rotates [of ?E "''gorbe''" "''9:16''" ?ip 0 idle
      "''Server (GPU) resource limit encountered: GPU quota exceeded''" ?w' "[1]"] failed
  have "retry_loop ?E ''gorbe'' ''9:16'' ?ip [0, 1] idle = (Next_Address, ?w')"
    and "attempts ?w' = attempts idle @ [(?ip, 0)]"
    by blast+
  then have one: "fst (retry_loop ?E ''gorbe'' ''9:16'' ?ip [0, 1] idle) = Next_Address"
    and two: "attempts (snd (retry_loop ?E ''gorbe'' ''9:16'' ?ip [0, 1] idle)) = [(?ip, 0)]"
    by simp_all
  have three: "attempts (snd (start_full_process_with_ipv6_rotation ?E ''gorbe'' ''9:16'' idle))
     = [(Some ''2001:db8::1'', 0), (Some ''2001:db8::2'', 0)]"
    by code_simp
  from one two three show ?thesis by blast
qed

section \<open>The order in which addresses are tried\<close>

text \<open>
  Line 229 announces that the tried addresses are kept \<open>to avoid immediate re-use in case
  of failure\<close>, but \<open>tried_ips_in_this_run\<close> is only appended to (line 236) and never read:
  nothing keeps the loop from popping an address it has just abandoned.

  Claim C4, evaluated. With the address list \<open>[a, a]\<close> and every submission answered with
  a resource error, the run pops \<open>a\<close>, abandons it after its failure, and pops and tries
  \<open>a\<close> again: the abandoned address is revisited within the run.
\<close>

theorem repeated_address_is_tried_again:
  "IPV6_ADDRESSES (quota_everywhere [''2001:db8::1'', ''2001:db8::1'']) \<noteq> []
   \<and> tried_ips_in_this_run (snd (start_full_process_with_ipv6_rotation
          (quota_everywhere [''2001:db8::1'', ''2001:db8::1''])
          ''gorbe'' ''9:16'' idle))
     = [Some ''2001:db8::1'', Some ''2001:db8::1'']
   \<and> attempts (snd (start_full_process_with_ipv6_rotation
          (quota_everywhere [''2001:db8::1'', ''2001:db8::1''])
          ''gorbe'' ''9:16'' idle))
     = [(Some ''2001:db8::1'', 0), (Some ''2001:db8::1'', 0)]"
proof -
  let ?E = "quota_everywhere [''2001:db8::1'', ''2001:db8::1'']"
  have a: "IPV6_ADDRESSES ?E \<noteq> []" by simp
  have b: "tried_ips_in_this_run (snd (start_full_process_with_ipv6_rotation ?E
      ''gorbe'' ''9:16'' idle)) = [Some ''2001:db8::1'', Some ''2001:db8::1'']"
    by code_simp
  have c: "attempts (snd (start_full_process_with_ipv6_rotation ?E ''gorbe'' ''9:16'' idle))
     = [(Some ''2001:db8::1'', 0), (Some ''2001:db8::1'', 0)]"
    by code_simp
  from a b c show ?thesis by blast
qed

text \<open>
  What the loop does ensure. For a non-empty address list, the addresses a run pops are a
  non-empty initial part of the list, in its order; the attempts come in one block per popped
  entry, each block of at least one attempt on that address, in the order of the pops. So on
  a list in which no address occurs twice, no address is popped twice.
\<close>

theorem addresses_tried_in_pool_order:
  "IPV6_ADDRESSES E \<noteq> [] \<longrightarrow>
     (\<exists>visited rest ns.
        map Some (IPV6_ADDRESSES E) = visited @ rest \<and> visited \<noteq> []
        \<and> tried_ips_in_this_run (snd (start_full_process_with_ipv6_rotation E p k w)) = visited
        \<and> length ns = length visited \<and> (\<forall>n \<in> set ns. 0 < n)
        \<and> map fst (drop (length (attempts w))
             (attempts (snd (start_full_process_with_ipv6_rotation E p k w))))
           = concat (map2 replicate ns visited)
        \<and> (distinct (IPV6_ADDRESSES E) \<longrightarrow> distinct visited))"
proof
  assume pool: "IPV6_ADDRESSES E \<noteq> []"
  define w0 where "w0 = w\<lparr>tried_ips_in_this_run := []\<rparr>"
  obtain r w' where run: "rotation E p k (map Some (IPV6_ADDRESSES E)) w0 = (r, w')"
    by fastforce
  with pool have whole: "start_full_process_with_ipv6_rotation E p k w = (r, w')"
    by (simp add: start_full_process_with_ipv6_rotation_def available_ips_for_this_run_def w0_def)
  from rotation_trace [OF run] pool
  obtain visited rest ns new_attempts where
    t: "map Some (IPV6_ADDRESSES E) = visited @ rest"
      "tried_ips_in_this_run w' = tried_ips_in_this_run w0 @ visited"
      "attempts w' = attempts w0 @ new_attempts"
      "length ns = length visited" "\<forall>n \<in> set ns. 0 < n"
      "map fst new_attempts = concat (map2 replicate ns visited)"
      "visited \<noteq> []"
    by auto
  have once: "distinct (IPV6_ADDRESSES E) \<longrightarrow> distinct visited"
  proof
    assume "distinct (IPV6_ADDRESSES E)"
    then have "distinct (map Some (IPV6_ADDRESSES E))"
      by (simp add: distinct_map)
    with t(1) show "distinct visited" by simp
  qed
  have "tried_ips_in_this_run (snd (start_full_process_with_ipv6_rotation E p k w)) = visited"
    "map fst (drop (length (attempts w))
             (attempts (snd (start_full_process_with_ipv6_rotation E p k w))))
           = concat (map2 replicate ns visited)"
    using whole t by (simp_all add: w0_def)
  with t once show "\<exists>visited rest ns.
        map Some (IPV6_ADDRESSES E) = visited @ rest \<and> visited \<noteq> []
        \<and> tried_ips_in_this_run (snd (start_full_process_with_ipv6_rotation E p k w)) = visited
        \<and> length ns = length visited \<and> (\<forall>n \<in> set ns. 0 < n)
        \<and> map fst (drop (length (attempts w))
             (attempts (snd (start_full_process_with_ipv6_rotation E p k w))))
           = concat (map2 replicate ns visited)
        \<and> (distinct (IPV6_ADDRESSES E) \<longrightarrow> distinct visited)"
    by blast
qed

theorem addresses_tried_in_pool_order_witness:
  "IPV6_ADDRESSES (quota_everywhere [''2001:db8::1'', ''2001:db8::2'']) \<noteq> []
   \<and> distinct (IPV6_ADDRESSES (quota_everywhere [''2001:db8::1'', ''2001:db8::2'']))
   \<and> tried_ips_in_this_run (snd (start_full_process_with_ipv6_rotation
          (quota_everywhere [''2001:db8::1'', ''2001:db8::2''])
          ''gorbe'' ''9:16'' idle))
     = [Some ''2001:db8::1'', Some ''2001:db8::2'']
   \<and> distinct (tried_ips_in_this_run (snd (start_full_process_with_ipv6_rotation
          (quota_everywhere [''2001:db8::1'', ''2001:db8::2''])
          ''gorbe'' ''9:16'' idle)))"
proof -
  let ?E = "quota_everywhere [''2001:db8::1'', ''2001:db8::2'']"
  have pool: "IPV6_ADDRESSES ?E \<noteq> []" and once: "distinct (IPV6_ADDRESSES ?E)"
    by simp_all
  from addresses_tried_in_pool_order [of ?E "''gorbe''" "''9:16''" idle] pool once
  have d: "distinct (tried_ips_in_this_run (snd (start_full_process_with_ipv6_rotation ?E
      ''gorbe'' ''9:16'' idle)))"
    by metis
  have v: "tried_ips_in_this_run (snd (start_full_process_with_ipv6_rotation ?E
      ''gorbe'' ''9:16'' idle)) = [Some ''2001:db8::1'', Some ''2001:db8::2'']"
    by code_simp
  from pool once d v show ?thesis by blast
qed

section \<open>A run without addresses\<close>

text \<open>
  Claim C5. When no address is loaded, the run works on the list \<open>[None]\<close>. It pops
  \<open>None\<close>, makes at least one attempt, each of them with \<open>None\<close>, and sends at least one
  request; no request of the run is bound to a source address.
\<close>

theorem empty_pool_uses_default_routing:
  "IPV6_ADDRESSES E = [] \<longrightarrow>
     available_ips_for_this_run E = [None]
     \<and> bound_source E None = None
     \<and> tried_ips_in_this_run (snd (start_full_process_with_ipv6_rotation E p k w)) = [None]
     \<and> (\<exists>n. 0 < n \<and>
           map fst (drop (length (attempts w))
             (attempts (snd (start_full_process_with_ipv6_rotation E p k w))))
           = replicate n None)
     \<and> (\<exists>first later.
           sent (snd (start_full_process_with_ipv6_rotation E p k w)) = sent w @ first # later
           \<and> (\<forall>q \<in> set (first # later). source_address q = None))"
proof
  assume pool: "IPV6_ADDRESSES E = []"
  define w0 where "w0 = w\<lparr>tried_ips_in_this_run := []\<rparr>"
  have snapshot: "available_ips_for_this_run E = [None]"
    using pool by (simp add: available_ips_for_this_run_def)
  have default: "bound_source E None = None"
    by (simp add: bound_source_def)
  obtain r w' where run: "rotation E p k [None] w0 = (r, w')"
    by fastforce
  with snapshot have whole: "start_full_process_with_ipv6_rotation E p k w = (r, w')"
    by (simp add: start_full_process_with_ipv6_rotation_def w0_def)
  from rotation_trace [OF run]
  obtain visited rest ns new_attempts new_requests where
    t: "[None] = visited @ rest"
      "tried_ips_in_this_run w' = tried_ips_in_this_run w0 @ visited"
      "attempts w' = attempts w0 @ new_attempts"
      "length ns = length visited" "\<forall>n \<in> set ns. 0 < n"
      "map fst new_attempts = concat (map2 replicate ns visited)"
      "sent w' = sent w0 @ new_requests"
      "\<forall>q \<in> set new_requests. \<exists>ip \<in> set visited. source_address q = bound_source E ip"
      "visited \<noteq> []" "new_requests \<noteq> []"
    by auto
  from t(1) t(9) have visited: "visited = [None]"
    by (cases visited) simp_all
  with t(4) obtain n where ns: "ns = [n]"
    by (cases ns) simp_all
  with t(5) have "0 < n" by simp
  moreover have "map fst (drop (length (attempts w))
             (attempts (snd (start_full_process_with_ipv6_rotation E p k w)))) = replicate n None"
    using whole t(3) t(6) visited ns by (simp add: w0_def)
  ultimately have count: "\<exists>n. 0 < n \<and>
           map fst (drop (length (attempts w))
             (attempts (snd (start_full_process_with_ipv6_rotation E p k w))))
           = replicate n None"
    by blast
  from t(10) obtain first later where new: "new_requests = first # later"
    by (cases new_requests) simp_all
  from t(8) visited default have "\<forall>q \<in> set new_requests. source_address q = None"
    by simp
  with new whole t(7) have requests: "\<exists>first later.
           sent (snd (start_full_process_with_ipv6_rotation E p k w)) = sent w @ first # later
           \<and> (\<forall>q \<in> set (first # later). source_address q = None)"
    by (simp add: w0_def)
  have tried: "tried_ips_in_this_run (snd (start_full_process_with_ipv6_rotation E p k w)) = [None]"
    using whole t(2) visited by (simp add: w0_def)
  from snapshot default tried count requests
  show "available_ips_for_this_run E = [None]
     \<and> bound_source E None = None
     \<and> tried_ips_in_this_run (snd (start_full_process_with_ipv6_rotation E p k w)) = [None]
     \<and> (\<exists>n. 0 < n \<and>
           map fst (drop (length (attempts w))
             (attempts (snd (start_full_process_with_ipv6_rotation E p k w))))
           = replicate n None)
     \<and> (\<exists>first later.
           sent (snd (start_full_process_with_ipv6_rotation E p k w)) = sent w @ first # later
           \<and> (\<forall>q \<in> set (first # later). source_address q = None))"
    by blast
qed

theorem empty_pool_uses_default_routing_witness:
  "IPV6_ADDRESSES (quota_everywhere []) = []
   \<and> available_ips_for_this_run
       (quota_everywhere []) = [None]
   \<and> tried_ips_in_this_run (snd (start_full_process_with_ipv6_rotation
          (quota_everywhere [])
          ''gorbe'' ''9:16'' idle)) = [None]
   \<and> attempts (snd (start_full_process_with_ipv6_rotation
          (quota_everywhere [])
          ''gorbe'' ''9:16'' idle)) = [(None, 0)]
   \<and> map source_address (sent (snd (start_full_process_with_ipv6_rotation
          (quota_everywhere [])
          ''gorbe'' ''9:16'' idle))) = [None]"
proof -
  let ?E = "quota_everywhere []"
  have pool: "IPV6_ADDRESSES ?E = []" by simp
  from empty_pool_uses_default_routing [of ?E "''gorbe''" "''9:16''" idle] pool
  have a: "available_ips_for_this_run ?E = [None]"
    and b: "tried_ips_in_this_run (snd (start_full_process_with_ipv6_rotation ?E
        ''gorbe'' ''9:16'' idle)) = [None]"
    by blast+
  have c: "attempts (snd (start_full_process_with_ipv6_rotation ?E ''gorbe'' ''9:16'' idle))
      = [(None, 0)]"
    by code_simp
  have d: "map source_address (sent (snd (start_full_process_with_ipv6_rotation ?E
      ''gorbe'' ''9:16'' idle))) = [None]"
    by code_simp
  from pool a b c d show ?thesis by blast
qed

end
